theory Spec2Isabelle
  imports Main "HOL-Library.Sublist"
begin

section \<open>Go library functions used by the program\<close>

text \<open>
  Go strings are byte sequences; \<^typ>\<open>string\<close> is a list of 8-bit characters, so
  \<open>length\<close> is Go's \<open>len\<close> and \<open>take 7\<close> is the slice \<open>s[:7]\<close> when it is in range.
\<close>

abbreviation NL :: string where
  "NL \<equiv> [CHR 0x0A]"

text \<open>
  \<open>unicode.IsSpace\<close>: the runes \<open>\t \n \v \f \r\<close>, space, U+0085, U+00A0, U+1680,
  U+2000 to U+200A, U+2028, U+2029, U+202F, U+205F and U+3000, each as its UTF-8 bytes.
\<close>

definition spaceRunes :: "string list" where
  "spaceRunes =
    [ [CHR 0x09], [CHR 0x0A], [CHR 0x0B], [CHR 0x0C], [CHR 0x0D], [CHR 0x20],
     [CHR 0xC2, CHR 0x85], [CHR 0xC2, CHR 0xA0],
     [CHR 0xE1, CHR 0x9A, CHR 0x80],
     [CHR 0xE2, CHR 0x80, CHR 0x80], [CHR 0xE2, CHR 0x80, CHR 0x81],
     [CHR 0xE2, CHR 0x80, CHR 0x82], [CHR 0xE2, CHR 0x80, CHR 0x83],
     [CHR 0xE2, CHR 0x80, CHR 0x84], [CHR 0xE2, CHR 0x80, CHR 0x85],
     [CHR 0xE2, CHR 0x80, CHR 0x86], [CHR 0xE2, CHR 0x80, CHR 0x87],
     [CHR 0xE2, CHR 0x80, CHR 0x88], [CHR 0xE2, CHR 0x80, CHR 0x89],
     [CHR 0xE2, CHR 0x80, CHR 0x8A],
     [CHR 0xE2, CHR 0x80, CHR 0xA8], [CHR 0xE2, CHR 0x80, CHR 0xA9],
     [CHR 0xE2, CHR 0x80, CHR 0xAF],
     [CHR 0xE2, CHR 0x81, CHR 0x9F],
     [CHR 0xE3, CHR 0x80, CHR 0x80]]"

text \<open>
  The width in bytes of the white-space rune a string starts with (ends with), 0 when
  the first (last) rune is not white space. An invalid byte decodes to U+FFFD, which is
  not white space.
\<close>

definition leadingSpace :: "string \<Rightarrow> nat" where
  "leadingSpace s = (case find (\<lambda>e. prefix e s) spaceRunes of None \<Rightarrow> 0 | Some e \<Rightarrow> length e)"

definition trailingSpace :: "string \<Rightarrow> nat" where
  "trailingSpace s = (case find (\<lambda>e. suffix e s) spaceRunes of None \<Rightarrow> 0 | Some e \<Rightarrow> length e)"

function TrimLeftSpace :: "string \<Rightarrow> string" where
  "TrimLeftSpace s =
     (if leadingSpace s = 0 \<or> length s < leadingSpace s then s
      else TrimLeftSpace (drop (leadingSpace s) s))"
  by pat_completeness auto
termination
  by (relation "measure length") auto

function TrimRightSpace :: "string \<Rightarrow> string" where
  "TrimRightSpace s =
     (if trailingSpace s = 0 \<or> length s < trailingSpace s then s
      else TrimRightSpace (take (length s - trailingSpace s) s))"
  by pat_completeness auto
termination
  by (relation "measure length") auto

declare TrimLeftSpace.simps [simp del] TrimRightSpace.simps [simp del]

text \<open>\<open>strings.TrimSpace\<close>: all leading and trailing Unicode white space removed.\<close>

definition TrimSpace :: "string \<Rightarrow> string" where
  "TrimSpace s = TrimRightSpace (TrimLeftSpace s)"

definition HasPrefix :: "string \<Rightarrow> string \<Rightarrow> bool" where
  "HasPrefix s p = prefix p s"

definition TrimPrefix :: "string \<Rightarrow> string \<Rightarrow> string" where
  "TrimPrefix s p = (if prefix p s then drop (length p) s else s)"

definition TrimSuffix :: "string \<Rightarrow> string \<Rightarrow> string" where
  "TrimSuffix s p = (if suffix p s then take (length s - length p) s else s)"

fun Contains :: "string \<Rightarrow> string \<Rightarrow> bool" where
  "Contains [] sub = (sub = [])"
| "Contains (c # cs) sub = (prefix sub (c # cs) \<or> Contains cs sub)"

text \<open>
  \<open>strings.Split(s, sep)\<close> for a non-empty separator: the pieces between the leftmost
  non-overlapping occurrences of \<open>sep\<close>, so always at least one piece. Every call site
  passes a non-empty literal; Go's explosion into runes for the empty separator is not
  modelled (the function then returns the whole string as one piece).
\<close>

function SplitFrom :: "string \<Rightarrow> string \<Rightarrow> string \<Rightarrow> string list" where
  "SplitFrom sep piece [] = [rev piece]"
| "SplitFrom sep piece (c # cs) =
     (if sep \<noteq> [] \<and> prefix sep (c # cs)
      then rev piece # SplitFrom sep [] (drop (length sep) (c # cs))
      else SplitFrom sep (c # piece) cs)"
  by pat_completeness auto
termination
  by (relation "measure (\<lambda>(sep, piece, s). length s)") auto

definition Split :: "string \<Rightarrow> string \<Rightarrow> string list" where
  "Split s sep = SplitFrom sep [] s"

text \<open>\<open>strings.Repeat\<close> of a one-byte string, and the verb \<open>%d\<close> on a length.\<close>

definition Repeat :: "char \<Rightarrow> nat \<Rightarrow> string" where
  "Repeat c n = replicate n c"

fun showNat :: "nat \<Rightarrow> string" where
  "showNat n = (if n < 10 then [''0123456789'' ! n]
                else showNat (n div 10) @ [''0123456789'' ! (n mod 10)])"

declare showNat.simps [simp del]


section \<open>Errors, the git gateway and the state of a run\<close>

text \<open>
  A Go \<open>error\<close> is either the error of a failed \<open>git\<close> process (with its text, such as
  \<open>exit status 128\<close>) or \<open>fmt.Errorf(prefix + "%w", err)\<close> wrapping another error.
  \<open>Error\<close> is the method \<open>err.Error()\<close>, which is what the verb \<open>%v\<close> prints.
\<close>

datatype error = ExecError string | Errorf string error

fun Error :: "error \<Rightarrow> string" where
  "Error (ExecError msg) = msg"
| "Error (Errorf pre err) = pre @ Error err"

text \<open>
  A function of the program that returns \<open>error\<close> ends in one of three ways: it returns
  \<open>nil\<close>, it returns an error, or it panics (the only panic of the program is the slice
  \<open>info.SHA[:7]\<close> out of range, recorded with the bound and the length).
\<close>

datatype panic = SliceBounds nat nat

datatype outcome = Success | Failure error | Panicked panic

text \<open>
  \<open>git\<close> itself is outside the program. A gateway answers a command line (the arguments
  after \<open>git\<close>) in a world with the combined output of the process, its error if it
  failed, and the world it leaves. Every theorem below holds for every gateway.
\<close>

type_synonym cmd = "string list"

type_synonym reply = "string \<times> error option"

type_synonym 'w gateway = "'w \<Rightarrow> cmd \<Rightarrow> reply \<times> 'w"

text \<open>
  The state of a run: the world, the git commands issued so far, each with what
  \<open>runGit\<close> returned for it, and the texts written to standard output, one per call of
  \<open>fmt.Printf\<close> or \<open>fmt.Println\<close>.
\<close>

record 'w run =
  world :: 'w
  calls :: "(cmd \<times> reply) list"
  stdout :: "string list"

definition runGit :: "'w gateway \<Rightarrow> cmd \<Rightarrow> 'w run \<Rightarrow> reply \<times> 'w run" where
  "runGit g args s =
     (case g (world s) args of
        ((output, err), w) \<Rightarrow>
          ((TrimSpace output, err),
           s\<lparr>world := w, calls := calls s @ [(args, (TrimSpace output, err))]\<rparr>))"

definition Printf :: "string \<Rightarrow> 'w run \<Rightarrow> 'w run" where
  "Printf text s = s\<lparr>stdout := stdout s @ [text]\<rparr>"

definition Println :: "string \<Rightarrow> 'w run \<Rightarrow> 'w run" where
  "Println text s = s\<lparr>stdout := stdout s @ [text @ NL]\<rparr>"

section \<open>Configuration\<close>

definition toolName :: string where
  "toolName = ''prrompt''"

definition defaultCommitPrefix :: string where
  "defaultCommitPrefix = ''prompt''"

definition defaultBranchPrefix :: string where
  "defaultBranchPrefix = ''skill-update''"

definition defaultBaseBranch :: string where
  "defaultBaseBranch = ''main''"

definition defaultPromptPatterns :: "string list" where
  "defaultPromptPatterns = [''.claude/skills/'', ''prompts/'']"

definition getCommitPrefix :: "'w gateway \<Rightarrow> 'w run \<Rightarrow> string \<times> 'w run" where
  "getCommitPrefix g s =
     (case runGit g [''config'', ''--get'', ''prrompt.commitPrefix''] s of
        ((val, err), s') \<Rightarrow>
          if err \<noteq> None then (defaultCommitPrefix, s')
          else if val = [] then (defaultCommitPrefix, s')
          else (val, s'))"

definition getBranchPrefix :: "'w gateway \<Rightarrow> 'w run \<Rightarrow> string \<times> 'w run" where
  "getBranchPrefix g s =
     (case runGit g [''config'', ''--get'', ''prrompt.branchPrefix''] s of
        ((val, err), s') \<Rightarrow>
          if err \<noteq> None then (defaultBranchPrefix, s')
          else if val = [] then (defaultBranchPrefix, s')
          else (val, s'))"

definition getBaseBranch :: "'w gateway \<Rightarrow> 'w run \<Rightarrow> string \<times> 'w run" where
  "getBaseBranch g s =
     (case runGit g [''config'', ''--get'', ''prrompt.baseBranch''] s of
        ((val, err), s') \<Rightarrow>
          if err \<noteq> None then (defaultBaseBranch, s')
          else if val = [] then (defaultBaseBranch, s')
          else (val, s'))"

text \<open>The loop of \<open>getPromptPatterns\<close> over the pieces of the configured value.\<close>

fun trimmedPatterns :: "string list \<Rightarrow> string list \<Rightarrow> string list" where
  "trimmedPatterns [] result = result"
| "trimmedPatterns (pattern # patterns) result =
     (if TrimSpace pattern \<noteq> [] then trimmedPatterns patterns (result @ [TrimSpace pattern])
      else trimmedPatterns patterns result)"

text \<open>What \<open>getPromptPatterns\<close> makes of the reply to its query (its lines 59 to 74).\<close>

definition patternsOf :: "reply \<Rightarrow> string list" where
  "patternsOf r =
     (case r of
        (val, err) \<Rightarrow>
          if err \<noteq> None \<or> val = [] then defaultPromptPatterns
          else (let result = trimmedPatterns (Split val '','') []
                in if length result = 0 then defaultPromptPatterns else result))"

definition getPromptPatterns :: "'w gateway \<Rightarrow> 'w run \<Rightarrow> string list \<times> 'w run" where
  "getPromptPatterns g s =
     (case runGit g [''config'', ''--get'', ''prrompt.promptPatterns''] s of
        (r, s') \<Rightarrow> (patternsOf r, s'))"

section \<open>Commit analysis\<close>

record CommitInfo =
  SHA :: string
  Message :: string
  PromptFiles :: "string list"
  OtherFiles :: "string list"
  IsMixed :: bool
  SourceBranch :: string

text \<open>The loop of \<open>isPromptFile\<close>: the first pattern that is a prefix of the path decides.\<close>

fun matchesPattern :: "string \<Rightarrow> string list \<Rightarrow> bool" where
  "matchesPattern path [] = False"
| "matchesPattern path (pattern # patterns) =
     (if HasPrefix path pattern then True else matchesPattern path patterns)"

text \<open>\<open>isPromptFile\<close> reads the patterns from the configuration at every call.\<close>

definition isPromptFile :: "'w gateway \<Rightarrow> string \<Rightarrow> 'w run \<Rightarrow> bool \<times> 'w run" where
  "isPromptFile g path s =
     (case getPromptPatterns g s of (patterns, s') \<Rightarrow> (matchesPattern path patterns, s'))"

text \<open>The loop of \<open>analyzeCommit\<close> over the lines of the changed-file list.\<close>

fun classifyFiles ::
  "'w gateway \<Rightarrow> string list \<Rightarrow> CommitInfo \<Rightarrow> 'w run \<Rightarrow> CommitInfo \<times> 'w run" where
  "classifyFiles g [] info s = (info, s)"
| "classifyFiles g (line # lines) info s =
     (let file = TrimSpace line in
      if file = [] then classifyFiles g lines info s
      else (case isPromptFile g file s of
              (isPrompt, s') \<Rightarrow>
                if isPrompt
                then classifyFiles g lines (info\<lparr>PromptFiles := PromptFiles info @ [file]\<rparr>) s'
                else classifyFiles g lines (info\<lparr>OtherFiles := OtherFiles info @ [file]\<rparr>) s'))"

definition analyzeCommit ::
  "'w gateway \<Rightarrow> string \<Rightarrow> 'w run \<Rightarrow> (error + CommitInfo) \<times> 'w run" where
  "analyzeCommit g sha s =
     (let info = \<lparr>SHA = sha, Message = [], PromptFiles = [], OtherFiles = [],
                  IsMixed = False, SourceBranch = []\<rparr> in
      case runGit g [''log'', ''--format=%B'', ''-n'', ''1'', sha] s of
        ((commitMessage, Some e), s1) \<Rightarrow>
          (Inl (Errorf ''failed to get commit message: '' e), s1)
      | ((commitMessage, None), s1) \<Rightarrow>
     (let info = info\<lparr>Message := commitMessage\<rparr> in
      case runGit g [''rev-parse'', ''--abbrev-ref'', ''HEAD''] s1 of
        ((currentBranch, Some e), s2) \<Rightarrow>
          (Inl (Errorf ''failed to get current branch: '' e), s2)
      | ((currentBranch, None), s2) \<Rightarrow>
     (let info = info\<lparr>SourceBranch := currentBranch\<rparr> in
      case runGit g [''diff-tree'', ''--no-commit-id'', ''--name-only'', ''-r'', sha] s2 of
        ((changedFiles, Some e), s3) \<Rightarrow>
          (Inl (Errorf ''failed to get changed files: '' e), s3)
      | ((changedFiles, None), s3) \<Rightarrow>
     (case classifyFiles g (Split changedFiles NL) info s3 of
        (info, s4) \<Rightarrow>
          (Inr (info\<lparr>IsMixed := length (OtherFiles info) > 0\<rparr>), s4)))))"

section \<open>Extraction\<close>

text \<open>The function \<open>truncate\<close> of the program (the name is taken by the record package).\<close>

definition truncate_string :: "string \<Rightarrow> nat \<Rightarrow> string" where
  "truncate_string s maxLen = (if length s \<le> maxLen then s else take maxLen s @ ''...'')"

definition cleanup :: "'w gateway \<Rightarrow> string \<Rightarrow> string \<Rightarrow> 'w run \<Rightarrow> 'w run" where
  "cleanup g originalBranch skillBranch s =
     (let s1 = snd (runGit g [''cherry-pick'', ''--abort''] s);
          s2 = snd (runGit g [''checkout'', originalBranch] s1)
      in snd (runGit g [''branch'', ''-D'', skillBranch] s2))"

definition generatePRURL :: "'w gateway \<Rightarrow> string \<Rightarrow> 'w run \<Rightarrow> string \<times> 'w run" where
  "generatePRURL g branch s =
     (case runGit g [''config'', ''--get'', ''remote.origin.url''] s of
        ((remoteURL, err), s1) \<Rightarrow>
      if err \<noteq> None then (''Create PR manually for branch: '' @ branch, s1)
      else
        let repoPath =
          (if HasPrefix remoteURL ''git@github.com:''
           then TrimSuffix (TrimPrefix remoteURL ''git@github.com:'') ''.git''
           else if Contains remoteURL ''github.com/''
           then (let parts = Split remoteURL ''github.com/'' in
                 if length parts = 2 then TrimSuffix (parts ! 1) ''.git'' else [])
           else [])
        in
        if repoPath = [] then (''Create PR manually for branch: '' @ branch, s1)
        else (case getBaseBranch g s1 of
                (base, s2) \<Rightarrow>
                  (''https://github.com/'' @ repoPath @ ''/compare/'' @ base @ ''...''
                     @ branch @ ''?expand=1'', s2)))"

text \<open>The loop that unstages the non-prompt files; the result of each command is dropped.\<close>

fun unstageFiles :: "'w gateway \<Rightarrow> string list \<Rightarrow> 'w run \<Rightarrow> 'w run" where
  "unstageFiles g [] s = s"
| "unstageFiles g (file # files) s =
     unstageFiles g files (snd (runGit g [''restore'', ''--staged'', file] s))"

text \<open>The check mark of the progress messages, U+2713, in UTF-8.\<close>

abbreviation CHECK :: string where
  "CHECK \<equiv> [CHR 0xE2, CHR 0x9C, CHR 0x93]"

definition extractPrompts :: "'w gateway \<Rightarrow> CommitInfo \<Rightarrow> 'w run \<Rightarrow> outcome \<times> 'w run" where
  "extractPrompts g info s =
     (if length (SHA info) < 7 then (Panicked (SliceBounds 7 (length (SHA info))), s)
      else
      let shortSHA = take 7 (SHA info) in
      case getBranchPrefix g s of (branchPrefix, s) \<Rightarrow>
     (let promptBranch = branchPrefix @ ''/'' @ shortSHA;
          s = Println (NL @ Repeat (CHR ''='') 60) s;
          s = Printf (''Processing commit: '' @ shortSHA @ NL) s;
          s = Printf (''Message: '' @ truncate_string (Message info) 60 @ NL) s;
          s = Printf (''Prompt files: '' @ showNat (length (PromptFiles info)) @ NL) s;
          s = Printf (''Other files: '' @ showNat (length (OtherFiles info)) @ NL) s;
          s = Println (Repeat (CHR ''='') 60) s;
          s = Printf (NL @ ''Creating branch: '' @ promptBranch @ NL) s in
      case getBaseBranch g s of (baseBranch, s) \<Rightarrow>
     (case runGit g [''checkout'', ''-b'', promptBranch, baseBranch] s of
        ((out, Some e), s) \<Rightarrow> (Failure (Errorf ''failed to create branch: '' e), s)
      | ((out, None), s) \<Rightarrow>
     (let s = Printf (''Cherry-picking commit '' @ shortSHA @ ''...'' @ NL) s in
      case runGit g [''cherry-pick'', SHA info, ''--no-commit''] s of
        ((out, Some e), s) \<Rightarrow>
          (Failure (Errorf ''failed to cherry-pick: '' e),
           cleanup g (SourceBranch info) promptBranch s)
      | ((out, None), s) \<Rightarrow>
     (let s = (if IsMixed info then unstageFiles g (OtherFiles info) s else s) in
      case getCommitPrefix g s of (commitPrefix, s) \<Rightarrow>
     (let commitMsg = ''['' @ commitPrefix @ ''] '' @ Message info;
          commitMsg =
            (if IsMixed info
             then commitMsg @ NL @ NL @ ''Extracted from '' @ SourceBranch info
                    @ '' ('' @ shortSHA @ '')''
             else commitMsg) in
      case runGit g [''commit'', ''-m'', commitMsg] s of
        ((out, Some e), s) \<Rightarrow>
          (Failure (Errorf ''failed to commit: '' e),
           cleanup g (SourceBranch info) promptBranch s)
      | ((out, None), s) \<Rightarrow>
     (let s = Printf (CHECK @ '' Created skill branch: '' @ promptBranch @ NL) s in
      case runGit g [''push'', ''origin'', promptBranch, ''-u''] s of ((out, err), s) \<Rightarrow>
     (let s = (case err of
                 Some e \<Rightarrow>
                   Printf (''Warning: failed to push (you may need to push manually): ''
                             @ Error e @ NL) s
               | None \<Rightarrow> Printf (CHECK @ '' Pushed to origin/'' @ promptBranch @ NL) s) in
      case runGit g [''checkout'', ''-f'', SourceBranch info] s of
        ((out, Some e), s) \<Rightarrow>
          (Failure (Errorf ''failed to return to original branch: '' e), s)
      | ((out, None), s) \<Rightarrow>
     (case generatePRURL g promptBranch s of (prURL, s) \<Rightarrow>
     (let s = Printf (NL @ CHECK @ '' Skill extraction complete!'' @ NL) s;
          s = Printf (NL @ ''Create PR: '' @ prURL @ NL @ NL) s in
      (Success, s)))))))))))"

section \<open>The entry points\<close>

text \<open>
  The entry guard of \<open>processCommit\<close> (its lines 88 and 89): the branch prefix is read only
  when the current branch could be read, as \<open>&&\<close> evaluates its right side only then.
\<close>

definition onPromptBranch :: "'w gateway \<Rightarrow> 'w run \<Rightarrow> bool \<times> 'w run" where
  "onPromptBranch g s =
     (case runGit g [''rev-parse'', ''--abbrev-ref'', ''HEAD''] s of
        ((currentBranch, err), s1) \<Rightarrow>
          if err = None
          then (case getBranchPrefix g s1 of
                  (branchPrefix, s2) \<Rightarrow> (HasPrefix currentBranch (branchPrefix @ ''/''), s2))
          else (False, s1))"

definition processCommit :: "'w gateway \<Rightarrow> string \<Rightarrow> 'w run \<Rightarrow> outcome \<times> 'w run" where
  "processCommit g commitSHA s =
     (case onPromptBranch g s of
        (skip, s1) \<Rightarrow>
          if skip then (Success, s1)
          else
           (case analyzeCommit g commitSHA s1 of
              (Inl err, s2) \<Rightarrow> (Failure (Errorf ''error analyzing commit: '' err), s2)
            | (Inr commitInfo, s2) \<Rightarrow>
                if length (PromptFiles commitInfo) = 0 then (Success, s2)
                else
                 (case extractPrompts g commitInfo s2 of
                    (Failure err, s3) \<Rightarrow>
                      (Failure (Errorf ''error extracting prompts: '' err), s3)
                  | (Success, s3) \<Rightarrow> (Success, s3)
                  | (Panicked p, s3) \<Rightarrow> (Panicked p, s3))))"

text \<open>
  \<open>main\<close> on the argument vector \<open>os.Args\<close>, with the exit status of the process: 0 when
  \<open>main\<close> returns, 1 from \<open>os.Exit(1)\<close>, 2 when the Go runtime ends the process after a
  panic. (The \<open>install\<close> mode is handled by \<open>init\<close> before \<open>main\<close> starts and is not part
  of this development.)
\<close>

definition main :: "'w gateway \<Rightarrow> string list \<Rightarrow> 'w run \<Rightarrow> nat \<times> 'w run" where
  "main g args s =
     (if length args < 2
      then (1, Println ''This tool is meant to be run as a git post-commit hook''
                 (Printf (''Usage: '' @ toolName @ '' <commit-sha>'' @ NL) s))
      else
      case processCommit g (args ! 1) s of
        (Success, s') \<Rightarrow> (0, s')
      | (Failure err, s') \<Rightarrow> (1, Printf (Error err @ NL) s')
      | (Panicked p, s') \<Rightarrow> (2, s'))"

section \<open>What a run did\<close>

text \<open>
  The git commands issued between two states of a run, with their replies, and the value
  a configuration getter makes of the reply to its query.
\<close>

definition newCalls :: "'w run \<Rightarrow> 'w run \<Rightarrow> (cmd \<times> reply) list" where
  "newCalls s s' = drop (length (calls s)) (calls s')"

definition newOutput :: "'w run \<Rightarrow> 'w run \<Rightarrow> string list" where
  "newOutput s s' = drop (length (stdout s)) (stdout s')"

definition configured :: "string \<Rightarrow> reply \<Rightarrow> string" where
  "configured dflt r = (if snd r \<noteq> None \<or> fst r = [] then dflt else fst r)"

text \<open>
  The commands that only read the repository: the queries of the current branch, of a
  configuration value, of a commit message and of a commit's changed files.
\<close>

definition isQuery :: "cmd \<Rightarrow> bool" where
  "isQuery c =
     (c = [''rev-parse'', ''--abbrev-ref'', ''HEAD'']
      \<or> (length c = 3 \<and> take 2 c = [''config'', ''--get''])
      \<or> (length c = 5 \<and> take 4 c = [''log'', ''--format=%B'', ''-n'', ''1''])
      \<or> (length c = 5 \<and> take 4 c = [''diff-tree'', ''--no-commit-id'', ''--name-only'', ''-r'']))"

text \<open>
  \<open>ran s s' cs os\<close>: from \<open>s\<close> to \<open>s'\<close> the run issued exactly the commands \<open>cs\<close> (with
  their replies) and wrote exactly the texts \<open>os\<close>.
\<close>

definition ran :: "'w run \<Rightarrow> 'w run \<Rightarrow> (cmd \<times> reply) list \<Rightarrow> string list \<Rightarrow> bool" where
  "ran s s' cs os \<longleftrightarrow> calls s' = calls s @ cs \<and> stdout s' = stdout s @ os"

text \<open>
  The commands and texts of the stages of an extraction, as functions of the replies
  that the gateway gave: the branch name, the progress lines up to the cherry-pick, the
  commands up to the creation of the branch, those of the compensating sequence, of the
  unstaging loop, of the commit with its message, and of the publication.
\<close>

definition promptBranchOf :: "reply \<Rightarrow> CommitInfo \<Rightarrow> string" where
  "promptBranchOf rbp info = configured defaultBranchPrefix rbp @ ''/'' @ take 7 (SHA info)"

definition header :: "reply \<Rightarrow> CommitInfo \<Rightarrow> string list" where
  "header rbp info =
     [NL @ Repeat (CHR ''='') 60 @ NL,
      ''Processing commit: '' @ take 7 (SHA info) @ NL,
      ''Message: '' @ truncate_string (Message info) 60 @ NL,
      ''Prompt files: '' @ showNat (length (PromptFiles info)) @ NL,
      ''Other files: '' @ showNat (length (OtherFiles info)) @ NL,
      Repeat (CHR ''='') 60 @ NL,
      NL @ ''Creating branch: '' @ promptBranchOf rbp info @ NL,
      ''Cherry-picking commit '' @ take 7 (SHA info) @ ''...'' @ NL]"

definition startCalls :: "reply \<Rightarrow> reply \<Rightarrow> CommitInfo \<Rightarrow> reply \<Rightarrow> (cmd \<times> reply) list" where
  "startCalls rbp rbase info rcreate =
     [([''config'', ''--get'', ''prrompt.branchPrefix''], rbp),
      ([''config'', ''--get'', ''prrompt.baseBranch''], rbase),
      ([''checkout'', ''-b'', promptBranchOf rbp info, configured defaultBaseBranch rbase], rcreate)]"

definition cleanupCalls :: "reply \<Rightarrow> CommitInfo \<Rightarrow> reply \<Rightarrow> reply \<Rightarrow> reply \<Rightarrow> (cmd \<times> reply) list" where
  "cleanupCalls rbp info ra rc rd =
     [([''cherry-pick'', ''--abort''], ra),
      ([''checkout'', SourceBranch info], rc),
      ([''branch'', ''-D'', promptBranchOf rbp info], rd)]"

definition unstageCalls :: "CommitInfo \<Rightarrow> reply list \<Rightarrow> (cmd \<times> reply) list" where
  "unstageCalls info rs =
     (if IsMixed info then zip (map (\<lambda>f. [''restore'', ''--staged'', f]) (OtherFiles info)) rs
      else [])"

definition commitText :: "reply \<Rightarrow> CommitInfo \<Rightarrow> string" where
  "commitText rcp info =
     ''['' @ configured defaultCommitPrefix rcp @ ''] '' @ Message info @
     (if IsMixed info
      then NL @ NL @ ''Extracted from '' @ SourceBranch info @ '' ('' @ take 7 (SHA info) @ '')''
      else [])"

definition stagedCalls ::
  "reply \<Rightarrow> reply \<Rightarrow> CommitInfo \<Rightarrow> reply \<Rightarrow> reply \<Rightarrow> reply list \<Rightarrow> reply \<Rightarrow> reply
     \<Rightarrow> (cmd \<times> reply) list" where
  "stagedCalls rbp rbase info rcreate rpick rs rcp rcommit =
     startCalls rbp rbase info rcreate
     @ [([''cherry-pick'', SHA info, ''--no-commit''], rpick)]
     @ unstageCalls info rs
     @ [([''config'', ''--get'', ''prrompt.commitPrefix''], rcp),
        ([''commit'', ''-m'', commitText rcp info], rcommit)]"

definition pushLine :: "reply \<Rightarrow> CommitInfo \<Rightarrow> reply \<Rightarrow> string" where
  "pushLine rbp info rpush =
     (case snd rpush of
        Some e \<Rightarrow> ''Warning: failed to push (you may need to push manually): '' @ Error e @ NL
      | None \<Rightarrow> CHECK @ '' Pushed to origin/'' @ promptBranchOf rbp info @ NL)"

definition publishCalls :: "reply \<Rightarrow> CommitInfo \<Rightarrow> reply \<Rightarrow> reply \<Rightarrow> (cmd \<times> reply) list" where
  "publishCalls rbp info rpush rback =
     [([''push'', ''origin'', promptBranchOf rbp info, ''-u''], rpush),
      ([''checkout'', ''-f'', SourceBranch info], rback)]"

definition publishLines :: "reply \<Rightarrow> CommitInfo \<Rightarrow> reply \<Rightarrow> string list" where
  "publishLines rbp info rpush =
     [CHECK @ '' Created skill branch: '' @ promptBranchOf rbp info @ NL, pushLine rbp info rpush]"

section \<open>A simulated repository\<close>

text \<open>
  The scenarios of \<open>prrompt_test.go\<close> run against real repositories. Here they run
  against a small simulation of git that knows the commands the program issues: branches
  with the paths of their committed tree and the message of their tip, an index of staged
  paths, the paths that are in the working tree without being staged or committed on the
  current branch, and the ways in which a step can fail (a cherry-pick that conflicts, a
  hook that rejects the commit, no remote to push to, a switch that would overwrite
  working-tree files or that meets an index with unresolved conflicts, the deletion of
  the branch that is checked out, a path that is not staged).

  A cherry-pick made with \<open>--no-commit\<close> is not recorded as a cherry-pick in progress,
  not even when it stops on a conflict: it leaves the conflicts unresolved in the index.
  So \<open>git cherry-pick --abort\<close> finds nothing to abort after it, and a plain
  \<open>git checkout\<close> is refused until the index is resolved; \<open>git checkout -f\<close> discards
  the index and switches.
\<close>

record repo =
  config :: "(string \<times> string) list"
  revisions :: "(string \<times> string \<times> string list) list"
  heads :: "(string \<times> string \<times> string list) list"
  current :: string
  index :: "string list"
  worktreeOnly :: "string list"
  unmerged :: bool
  conflicting :: "string list"
  rejecting :: bool

definition exitStatus :: "nat \<Rightarrow> string \<Rightarrow> reply" where
  "exitStatus n text = (text @ NL, Some (ExecError (''exit status '' @ showNat n)))"

definition printed :: "string \<Rightarrow> reply" where
  "printed text = (text @ NL, None)"

fun joinLines :: "string list \<Rightarrow> string" where
  "joinLines [] = []"
| "joinLines (l # ls) = l @ NL @ joinLines ls"

definition treeOf :: "repo \<Rightarrow> string \<Rightarrow> string list" where
  "treeOf w b = (case map_of (heads w) b of None \<Rightarrow> [] | Some (msg, paths) \<Rightarrow> paths)"

definition gitConfigGet :: "repo \<Rightarrow> string \<Rightarrow> reply \<times> repo" where
  "gitConfigGet w key =
     (case map_of (config w) key of
        None \<Rightarrow> (([], Some (ExecError ''exit status 1'')), w)
      | Some v \<Rightarrow> (printed v, w))"

definition gitLog :: "repo \<Rightarrow> string \<Rightarrow> reply \<times> repo" where
  "gitLog w name =
     (case map_of (revisions w) name of
        None \<Rightarrow> (exitStatus 128 (''fatal: ambiguous argument '' @ name), w)
      | Some (msg, paths) \<Rightarrow> (printed (msg @ NL), w))"

definition gitDiffTree :: "repo \<Rightarrow> string \<Rightarrow> reply \<times> repo" where
  "gitDiffTree w name =
     (case map_of (revisions w) name of
        None \<Rightarrow> (exitStatus 128 (''fatal: ambiguous argument '' @ name), w)
      | Some (msg, paths) \<Rightarrow> ((joinLines paths, None), w))"

definition gitCheckoutNew :: "repo \<Rightarrow> string \<Rightarrow> string \<Rightarrow> reply \<times> repo" where
  "gitCheckoutNew w new base =
     (case map_of (heads w) base of
        None \<Rightarrow> (exitStatus 128 (''fatal: not a commit: '' @ base), w)
      | Some tip \<Rightarrow>
          if map_of (heads w) new \<noteq> None
          then (exitStatus 128 (''fatal: a branch named '' @ new @ '' already exists''), w)
          else (printed (''Switched to a new branch '' @ new),
                w\<lparr>heads := heads w @ [(new, tip)], current := new\<rparr>))"

definition gitCherryPick :: "repo \<Rightarrow> string \<Rightarrow> reply \<times> repo" where
  "gitCherryPick w name =
     (case map_of (revisions w) name of
        None \<Rightarrow> (exitStatus 128 (''fatal: bad revision '' @ name), w)
      | Some (msg, paths) \<Rightarrow>
          if name \<in> set (conflicting w)
          then (exitStatus 1 (''error: could not apply '' @ name), w\<lparr>unmerged := True\<rparr>)
          else (([], None), w\<lparr>index := remdups (index w @ paths)\<rparr>))"

definition gitRestoreStaged :: "repo \<Rightarrow> string \<Rightarrow> reply \<times> repo" where
  "gitRestoreStaged w path =
     (if path \<in> set (index w)
      then (([], None),
            w\<lparr>index := removeAll path (index w), worktreeOnly := worktreeOnly w @ [path]\<rparr>)
      else (exitStatus 1 (''error: pathspec did not match: '' @ path), w))"

definition gitCommit :: "repo \<Rightarrow> string \<Rightarrow> reply \<times> repo" where
  "gitCommit w msg =
     (if unmerged w then (exitStatus 128 ''error: committing is not possible because you have unmerged files'', w)
      else if rejecting w then (exitStatus 1 ''commit rejected by hook'', w)
      else if index w = [] then (exitStatus 1 ''nothing to commit'', w)
      else (printed (''['' @ current w @ ''] '' @ msg),
            w\<lparr>heads := map (\<lambda>(b, tip). if b = current w
                                        then (b, msg, remdups (snd tip @ index w))
                                        else (b, tip)) (heads w),
              index := []\<rparr>))"

definition gitPush :: "repo \<Rightarrow> string \<Rightarrow> reply \<times> repo" where
  "gitPush w b =
     (if map_of (config w) ''remote.origin.url'' = None
      then (exitStatus 128 ''fatal: origin does not appear to be a git repository'', w)
      else if map_of (heads w) b = None
      then (exitStatus 1 (''error: src refspec does not match any: '' @ b), w)
      else (printed (''branch set up to track origin/'' @ b), w))"

definition gitCheckoutForce :: "repo \<Rightarrow> string \<Rightarrow> reply \<times> repo" where
  "gitCheckoutForce w b =
     (if map_of (heads w) b = None
      then (exitStatus 1 (''error: pathspec did not match: '' @ b), w)
      else (printed (''Switched to branch '' @ b),
            w\<lparr>current := b, index := [], unmerged := False,
              worktreeOnly := filter (\<lambda>p. p \<notin> set (treeOf w b)) (worktreeOnly w)\<rparr>))"

definition gitCherryPickAbort :: "repo \<Rightarrow> reply \<times> repo" where
  "gitCherryPickAbort w =
     (exitStatus 128 ''error: no cherry-pick or revert in progress'', w)"

definition gitCheckout :: "repo \<Rightarrow> string \<Rightarrow> reply \<times> repo" where
  "gitCheckout w b =
     (if map_of (heads w) b = None
      then (exitStatus 1 (''error: pathspec did not match: '' @ b), w)
      else if unmerged w
      then (exitStatus 1 ''error: you need to resolve your current index first'', w)
      else if list_ex (\<lambda>p. p \<in> set (treeOf w b)) (worktreeOnly w)
      then (exitStatus 1 ''error: untracked working tree files would be overwritten'', w)
      else (printed (''Switched to branch '' @ b),
            w\<lparr>current := b, index := filter (\<lambda>p. p \<notin> set (treeOf w b)) (index w)\<rparr>))"

definition gitBranchDelete :: "repo \<Rightarrow> string \<Rightarrow> reply \<times> repo" where
  "gitBranchDelete w b =
     (if map_of (heads w) b = None
      then (exitStatus 1 (''error: branch not found: '' @ b), w)
      else if b = current w
      then (exitStatus 1 (''error: cannot delete checked out branch '' @ b), w)
      else (printed (''Deleted branch '' @ b), w\<lparr>heads := filter (\<lambda>(n, tip). n \<noteq> b) (heads w)\<rparr>))"

definition gitBranchList :: "repo \<Rightarrow> string \<Rightarrow> reply \<times> repo" where
  "gitBranchList w b =
     (if map_of (heads w) b = None then (([], None), w)
      else (printed ((if b = current w then ''* '' else ''  '') @ b), w))"

definition simGit :: "repo gateway" where
  "simGit w c =
     (if c = [''rev-parse'', ''--abbrev-ref'', ''HEAD''] then (printed (current w), w)
      else if length c = 3 \<and> take 2 c = [''config'', ''--get''] then gitConfigGet w (c ! 2)
      else if length c = 5 \<and> take 4 c = [''log'', ''--format=%B'', ''-n'', ''1'']
        then gitLog w (c ! 4)
      else if length c = 5 \<and> take 4 c = [''diff-tree'', ''--no-commit-id'', ''--name-only'', ''-r'']
        then gitDiffTree w (c ! 4)
      else if length c = 4 \<and> take 2 c = [''checkout'', ''-b''] then gitCheckoutNew w (c ! 2) (c ! 3)
      else if length c = 3 \<and> c ! 0 = ''cherry-pick'' \<and> c ! 2 = ''--no-commit''
        then gitCherryPick w (c ! 1)
      else if length c = 3 \<and> take 2 c = [''restore'', ''--staged''] then gitRestoreStaged w (c ! 2)
      else if length c = 3 \<and> take 2 c = [''commit'', ''-m''] then gitCommit w (c ! 2)
      else if length c = 4 \<and> take 2 c = [''push'', ''origin''] \<and> c ! 3 = ''-u''
        then gitPush w (c ! 2)
      else if length c = 3 \<and> take 2 c = [''checkout'', ''-f''] then gitCheckoutForce w (c ! 2)
      else if c = [''cherry-pick'', ''--abort''] then gitCherryPickAbort w
      else if length c = 2 \<and> c ! 0 = ''checkout'' then gitCheckout w (c ! 1)
      else if length c = 3 \<and> take 2 c = [''branch'', ''-D''] then gitBranchDelete w (c ! 2)
      else if length c = 3 \<and> take 2 c = [''branch'', ''--list''] then gitBranchList w (c ! 2)
      else (exitStatus 1 ''git: not a git command'', w))"

text \<open>
  How the tests look for a branch: \<open>git branch --list b\<close> prints it. And the state in
  which a run starts.
\<close>

definition branchListed :: "'w gateway \<Rightarrow> 'w \<Rightarrow> string \<Rightarrow> bool" where
  "branchListed g w b = Contains (fst (fst (g w [''branch'', ''--list'', b]))) b"

definition start :: "'w \<Rightarrow> 'w run" where
  "start w = \<lparr>world = w, calls = [], stdout = []\<rparr>"

text \<open>
  The repository of the tests: \<open>main\<close> with an empty initial commit, and
  \<open>feature-branch\<close> checked out with one commit on top of it.
\<close>

definition mixedSHA :: string where
  "mixedSHA = ''3f9a1c27d4e5b6a7980112233445566778899aab''"

definition testRepo :: repo where
  "testRepo =
     \<lparr>config = [],
      revisions = [(mixedSHA, ''Add prompt and code'', [''prompts/test.md'', ''src/main.go'']),
                   (''HEAD'', ''Add prompt and code'', [''prompts/test.md'', ''src/main.go''])],
      heads = [(''main'', ''Initial commit'', []),
               (''feature-branch'', ''Add prompt and code'', [''prompts/test.md'', ''src/main.go''])],
      current = ''feature-branch'',
      index = [],
      worktreeOnly = [],
      unmerged = False,
      conflicting = [],
      rejecting = False\<rparr>"

text \<open>The query that \<open>getPromptPatterns\<close> issues.\<close>

abbreviation patternsQuery :: cmd where
  "patternsQuery \<equiv> [''config'', ''--get'', ''prrompt.promptPatterns'']"

text \<open>The repository of \<open>Test_SkipOnPromptBranch\<close>: an extraction branch is checked out.\<close>

definition promptBranchRepo :: repo where
  "promptBranchRepo =
     testRepo\<lparr>heads := heads testRepo
                  @ [(''skill-update/test123'', ''Add prompt file'', [''.claude/skills/test.md''])],
              current := ''skill-update/test123''\<rparr>"

text \<open>The repository of \<open>Test_NoPromptFiles\<close>: the commit touches one source file.\<close>

definition codeSHA :: string where
  "codeSHA = ''b7c2d90e1f3a4b5c6d7e8f9a0b1c2d3e4f5a6b7c''"

definition codeRepo :: repo where
  "codeRepo =
     testRepo\<lparr>revisions := [(codeSHA, ''Add code file'', [''src/main.go''])],
              heads := [(''main'', ''Initial commit'', []),
                        (''feature-branch'', ''Add code file'', [''src/main.go''])]\<rparr>"

text \<open>
  What the analysis of the commit of \<open>Test_MixedCommit\<close> returns, and that repository
  with a cherry-pick that conflicts, and with a hook that rejects the commit.
\<close>

definition mixedInfo :: CommitInfo where
  "mixedInfo =
     \<lparr>SHA = mixedSHA, Message = ''Add prompt and code'', PromptFiles = [''prompts/test.md''],
      OtherFiles = [''src/main.go''], IsMixed = True, SourceBranch = ''feature-branch''\<rparr>"

definition conflictRepo :: repo where
  "conflictRepo = testRepo\<lparr>conflicting := [mixedSHA]\<rparr>"

definition rejectingRepo :: repo where
  "rejectingRepo = testRepo\<lparr>rejecting := True\<rparr>"

text \<open>What a run on the simulated repository came to: its outcome, its commands, the repository.\<close>

definition observed :: "outcome \<times> repo run \<Rightarrow> outcome \<times> (cmd \<times> reply) list \<times> repo" where
  "observed x = (fst x, calls (snd x), world (snd x))"

text \<open>
  The repository of \<open>Test_CustomConfig\<close>, with every key configured, a base branch of its
  own and a remote; the commit touches a file under a configured pattern and one under a
  default pattern that the configuration no longer lists.
\<close>

definition customSHA :: string where
  "customSHA = ''c0ffee1234567890abcdef1234567890abcdef12''"

definition customRepo :: repo where
  "customRepo =
     \<lparr>config = [(''prrompt.commitPrefix'', ''custom-prefix''),
                (''prrompt.branchPrefix'', ''custom-branch''),
                (''prrompt.baseBranch'', ''develop''),
                (''prrompt.promptPatterns'', ''custom/prompts/ , docs/prompts/,, ''),
                (''remote.origin.url'', ''git@github.com:Ilnicki010/prrompt.git'')],
      revisions = [(customSHA, ''Add prompt file'', [''custom/prompts/test.md'', ''prompts/old.md''])],
      heads = [(''main'', ''Initial commit'', []),
               (''develop'', ''Start development'', [''README.md'']),
               (''feature-branch'', ''Add prompt file'',
                [''README.md'', ''custom/prompts/test.md'', ''prompts/old.md''])],
      current = ''feature-branch'',
      index = [],
      worktreeOnly = [],
      unmerged = False,
      conflicting = [],
      rejecting = False\<rparr>"

text \<open>What the analysis of the commit of the configured repository returns.\<close>

definition customInfo :: CommitInfo where
  "customInfo =
     \<lparr>SHA = customSHA, Message = ''Add prompt file'', PromptFiles = [''custom/prompts/test.md''],
      OtherFiles = [''prompts/old.md''], IsMixed = True, SourceBranch = ''feature-branch''\<rparr>"



text \<open>
  A repository whose commit touches a prompt file and two other files whose names start
  with a space (git prints such names as they are), and the repository of
  \<open>Test_PromptOnlyCommit\<close> with a hook that rejects the commit.
\<close>

definition notesSHA :: string where
  "notesSHA = ''0badc0de99887766554433221100ffeeddccbbaa''"

definition notesRepo :: repo where
  "notesRepo =
     testRepo\<lparr>revisions := [(notesSHA, ''Add prompt and notes'',
                              ['' a.txt'', '' notes.txt'', ''prompts/test.md''])],
              heads := [(''main'', ''Initial commit'', []),
                        (''feature-branch'', ''Add prompt and notes'',
                         ['' a.txt'', '' notes.txt'', ''prompts/test.md''])]\<rparr>"

definition promptSHA :: string where
  "promptSHA = ''a11ce5eed0123456789abcdef0123456789abcde''"

definition promptOnlyRepo :: repo where
  "promptOnlyRepo =
     testRepo\<lparr>revisions := [(promptSHA, ''Add prompt file'', [''.claude/skills/test.md''])],
              heads := [(''main'', ''Initial commit'', []),
                        (''feature-branch'', ''Add prompt file'', [''.claude/skills/test.md''])],
              rejecting := True\<rparr>"

section \<open>What the library functions and the steps of a run do\<close>

lemma Printf_simps [simp]:
  "calls (Printf t s) = calls s" "world (Printf t s) = world s" "stdout (Printf t s) = stdout s @ [t]"
  by (simp_all add: Printf_def)

lemma Println_simps [simp]:
  "calls (Println t s) = calls s" "world (Println t s) = world s" "stdout (Println t s) = stdout s @ [t @ NL]"
  by (simp_all add: Println_def)

lemma ran_refl: "ran s s [] []" by (simp add: ran_def)

lemma ran_trans: "ran s s1 cs os \<Longrightarrow> ran s1 s2 cs' os' \<Longrightarrow> ran s s2 (cs @ cs') (os @ os')"
  by (simp add: ran_def)

lemma ran_newCalls: "ran s s' cs os \<Longrightarrow> newCalls s s' = cs"
  by (simp add: ran_def newCalls_def)

lemma ran_newOutput: "ran s s' cs os \<Longrightarrow> newOutput s s' = os"
  by (simp add: ran_def newOutput_def)

lemma ran_Printf: "ran s (Printf t s) [] [t]" by (simp add: ran_def)
lemma ran_Println: "ran s (Println t s) [] [t @ NL]" by (simp add: ran_def)

lemma runGit_ran: "runGit g a s = (r, s') \<Longrightarrow> ran s s' [(a, r)] []"
  by (auto simp: runGit_def ran_def split: prod.splits)

lemma getBranchPrefix_ran:
  "getBranchPrefix g s = (v, s') \<Longrightarrow>
   \<exists>r. ran s s' [([''config'', ''--get'', ''prrompt.branchPrefix''], r)] [] \<and> v = configured defaultBranchPrefix r"
  by (auto simp: getBranchPrefix_def configured_def split: prod.splits if_splits dest: runGit_ran)

lemma getBaseBranch_ran:
  "getBaseBranch g s = (v, s') \<Longrightarrow>
   \<exists>r. ran s s' [([''config'', ''--get'', ''prrompt.baseBranch''], r)] [] \<and> v = configured defaultBaseBranch r"
  by (auto simp: getBaseBranch_def configured_def split: prod.splits if_splits dest: runGit_ran)

lemma getCommitPrefix_ran:
  "getCommitPrefix g s = (v, s') \<Longrightarrow>
   \<exists>r. ran s s' [([''config'', ''--get'', ''prrompt.commitPrefix''], r)] [] \<and> v = configured defaultCommitPrefix r"
  by (auto simp: getCommitPrefix_def configured_def split: prod.splits if_splits dest: runGit_ran)

lemma getPromptPatterns_ran:
  "getPromptPatterns g s = (v, s') \<Longrightarrow>
   \<exists>r. ran s s' [([''config'', ''--get'', ''prrompt.promptPatterns''], r)] [] \<and> v = patternsOf r"
  by (auto simp: getPromptPatterns_def split: prod.splits dest: runGit_ran)

lemma cleanup_ran:
  "\<exists>ra rc rd. ran s (cleanup g ob sb s)
      [([''cherry-pick'', ''--abort''], ra), ([''checkout'', ob], rc), ([''branch'', ''-D'', sb], rd)] []"
proof -
  obtain ra s1 where 1: "runGit g [''cherry-pick'', ''--abort''] s = (ra, s1)" by fastforce
  obtain rc s2 where 2: "runGit g [''checkout'', ob] s1 = (rc, s2)" by fastforce
  obtain rd s3 where 3: "runGit g [''branch'', ''-D'', sb] s2 = (rd, s3)" by fastforce
  have "cleanup g ob sb s = s3" by (simp add: cleanup_def 1 2 3)
  moreover have "ran s s3 ([([''cherry-pick'', ''--abort''], ra)] @ [([''checkout'', ob], rc)] @ [([''branch'', ''-D'', sb], rd)]) ([] @ [] @ [])"
    using runGit_ran[OF 1] runGit_ran[OF 2] runGit_ran[OF 3] by (blast intro: ran_trans)
  ultimately have "ran s (cleanup g ob sb s)
      [([''cherry-pick'', ''--abort''], ra), ([''checkout'', ob], rc), ([''branch'', ''-D'', sb], rd)] []"
    by simp
  then show ?thesis by blast
qed

lemma unstageFiles_ran:
  "\<exists>rs. length rs = length files \<and> ran s (unstageFiles g files s) (zip (map (\<lambda>f. [''restore'', ''--staged'', f]) files) rs) []"
proof (induction files arbitrary: s)
  case Nil
  show ?case by (simp add: ran_refl)
next
  case (Cons f files)
  obtain r s1 where 1: "runGit g [''restore'', ''--staged'', f] s = (r, s1)" by fastforce
  from Cons.IH[of s1] obtain rs where rs: "length rs = length files"
    "ran s1 (unstageFiles g files s1) (zip (map (\<lambda>f. [''restore'', ''--staged'', f]) files) rs) []" by blast
  have "ran s (unstageFiles g (f # files) s) ([([''restore'', ''--staged'', f], r)] @ zip (map (\<lambda>f. [''restore'', ''--staged'', f]) files) rs) ([] @ [])"
    using ran_trans[OF runGit_ran[OF 1] rs(2)] by (simp add: 1)
  then show ?case using rs(1) by (intro exI[of _ "r # rs"]) simp
qed


lemma generatePRURL_ran:
  "generatePRURL g b s = (u, s') \<Longrightarrow> \<exists>cs. ran s s' cs [] \<and> (\<forall>c\<in>set cs. isQuery (fst c))"
proof -
  assume a: "generatePRURL g b s = (u, s')"
  obtain r s1 where 1: "runGit g [''config'', ''--get'', ''remote.origin.url''] s = (r, s1)" by fastforce
  obtain v s2 where 2: "getBaseBranch g s1 = (v, s2)" by fastforce
  from getBaseBranch_ran[OF 2] obtain r' where r': "ran s1 s2 [([''config'', ''--get'', ''prrompt.baseBranch''], r')] []" by blast
  have q1: "isQuery [''config'', ''--get'', ''remote.origin.url'']" by (simp add: isQuery_def)
  have q2: "isQuery [''config'', ''--get'', ''prrompt.baseBranch'']" by (simp add: isQuery_def)
  from a 1 2 have "s' = s1 \<or> s' = s2"
    by (cases r) (auto simp: generatePRURL_def Let_def split: if_splits)
  then show ?thesis
  proof
    assume "s' = s1"
    with runGit_ran[OF 1] q1 show ?thesis by fastforce
  next
    assume "s' = s2"
    with ran_trans[OF runGit_ran[OF 1] r'] q1 q2 show ?thesis by fastforce
  qed
qed

lemma extractPrompts_cases [consumes 2, case_names create pick commit return finish]:
  assumes run: "extractPrompts g info s = (r, s')" and len: "7 \<le> length (SHA info)"
  obtains
    (create) rbp rbase rcreate e where
      "snd rcreate = Some e"
      "newCalls s s' = startCalls rbp rbase info rcreate"
      "newOutput s s' = butlast (header rbp info)"
      "r = Failure (Errorf ''failed to create branch: '' e)"
  | (pick) rbp rbase rcreate rpick e ra rc rd where
      "snd rcreate = None" "snd rpick = Some e"
      "newCalls s s' = startCalls rbp rbase info rcreate
         @ [([''cherry-pick'', SHA info, ''--no-commit''], rpick)]
         @ cleanupCalls rbp info ra rc rd"
      "newOutput s s' = header rbp info"
      "r = Failure (Errorf ''failed to cherry-pick: '' e)"
  | (commit) rbp rbase rcreate rpick rs rcp rcommit e ra rc rd where
      "snd rcreate = None" "snd rpick = None" "snd rcommit = Some e"
      "length rs = length (OtherFiles info)"
      "newCalls s s' = stagedCalls rbp rbase info rcreate rpick rs rcp rcommit
         @ cleanupCalls rbp info ra rc rd"
      "newOutput s s' = header rbp info"
      "r = Failure (Errorf ''failed to commit: '' e)"
  | (return) rbp rbase rcreate rpick rs rcp rcommit rpush rback e where
      "snd rcreate = None" "snd rpick = None" "snd rcommit = None" "snd rback = Some e"
      "length rs = length (OtherFiles info)"
      "newCalls s s' = stagedCalls rbp rbase info rcreate rpick rs rcp rcommit
         @ publishCalls rbp info rpush rback"
      "newOutput s s' = header rbp info @ publishLines rbp info rpush"
      "r = Failure (Errorf ''failed to return to original branch: '' e)"
  | (finish) rbp rbase rcreate rpick rs rcp rcommit rpush rback cs url where
      "snd rcreate = None" "snd rpick = None" "snd rcommit = None" "snd rback = None"
      "length rs = length (OtherFiles info)"
      "newCalls s s' = stagedCalls rbp rbase info rcreate rpick rs rcp rcommit
         @ publishCalls rbp info rpush rback @ cs"
      "\<forall>c\<in>set cs. isQuery (fst c)"
      "newOutput s s' = header rbp info @ publishLines rbp info rpush
         @ [NL @ CHECK @ '' Skill extraction complete!'' @ NL,
            NL @ ''Create PR: '' @ url @ NL @ NL]"
      "r = Success"
proof -
  obtain bp s1 where 1: "getBranchPrefix g s = (bp, s1)" by fastforce
  from getBranchPrefix_ran[OF 1] obtain rbp where rbp:
    "ran s s1 [([''config'', ''--get'', ''prrompt.branchPrefix''], rbp)] []"
    "bp = configured defaultBranchPrefix rbp" by blast
  define pb where "pb = bp @ ''/'' @ take 7 (SHA info)"
  define s2 where "s2 = Printf (NL @ ''Creating branch: '' @ pb @ NL)
      (Println (Repeat (CHR ''='') 60)
      (Printf (''Other files: '' @ showNat (length (OtherFiles info)) @ NL)
      (Printf (''Prompt files: '' @ showNat (length (PromptFiles info)) @ NL)
      (Printf (''Message: '' @ truncate_string (Message info) 60 @ NL)
      (Printf (''Processing commit: '' @ take 7 (SHA info) @ NL)
      (Println (NL @ Repeat (CHR ''='') 60) s1))))))"
  have pbeq: "pb = promptBranchOf rbp info" by (simp add: pb_def promptBranchOf_def rbp(2))
  have h: "ran s1 s2 [] (butlast (header rbp info))"
    by (simp add: ran_def s2_def header_def pbeq)
  obtain base s3 where 3: "getBaseBranch g s2 = (base, s3)" by fastforce
  from getBaseBranch_ran[OF 3] obtain rbase where rbase:
    "ran s2 s3 [([''config'', ''--get'', ''prrompt.baseBranch''], rbase)] []"
    "base = configured defaultBaseBranch rbase" by blast
  obtain rcreate s4 where 4: "runGit g [''checkout'', ''-b'', pb, base] s3 = (rcreate, s4)" by fastforce
  have A: "ran s s4 (startCalls rbp rbase info rcreate) (butlast (header rbp info))"
    using ran_trans[OF ran_trans[OF ran_trans[OF rbp(1) h] rbase(1)] runGit_ran[OF 4]]
    by (simp add: startCalls_def pbeq rbase(2))
  show thesis
  proof (cases "snd rcreate")
    case (Some e)
    with 1 3 4 run len have "r = Failure (Errorf ''failed to create branch: '' e) \<and> s' = s4"
      by (cases rcreate) (simp add: extractPrompts_def Let_def pb_def s2_def)
    with A Some show thesis
      by (intro create[of rcreate e rbp rbase]) (simp_all add: ran_newCalls ran_newOutput)
  next
    case None
    note c0 = None
    define s5 where "s5 = Printf (''Cherry-picking commit '' @ take 7 (SHA info) @ ''...'' @ NL) s4"
    obtain rpick s6 where 6: "runGit g [''cherry-pick'', SHA info, ''--no-commit''] s5 = (rpick, s6)"
      by fastforce
    have "ran s4 s5 [] [''Cherry-picking commit '' @ take 7 (SHA info) @ ''...'' @ NL]"
      by (simp add: s5_def ran_def)
    from ran_trans[OF ran_trans[OF A this] runGit_ran[OF 6]]
    have B: "ran s s6 (startCalls rbp rbase info rcreate
                @ [([''cherry-pick'', SHA info, ''--no-commit''], rpick)]) (header rbp info)"
      by (simp add: header_def)
    show thesis
    proof (cases "snd rpick")
      case (Some e)
      from cleanup_ran[of s6 g "SourceBranch info" pb] obtain ra rc rd where
        cl: "ran s6 (cleanup g (SourceBranch info) pb s6) (cleanupCalls rbp info ra rc rd) []"
        unfolding cleanupCalls_def pbeq by blast
      from Some c0 1 3 4 6 run len
      have "r = Failure (Errorf ''failed to cherry-pick: '' e)
              \<and> s' = cleanup g (SourceBranch info) pb s6"
        by (cases rcreate, cases rpick) (simp add: extractPrompts_def Let_def pb_def s2_def s5_def)
      with ran_trans[OF B cl] Some c0 show thesis
        by (intro pick[of rcreate rpick e rbp rbase ra rc rd]) (simp_all add: ran_newCalls ran_newOutput)
    next
      case None
      note c1 = None
      define s7 where "s7 = (if IsMixed info then unstageFiles g (OtherFiles info) s6 else s6)"
      obtain rs where rs: "length rs = length (OtherFiles info)" "ran s6 s7 (unstageCalls info rs) []"
      proof (cases "IsMixed info")
        case True
        with unstageFiles_ran[of "OtherFiles info" s6 g] that show thesis
          by (auto simp: s7_def unstageCalls_def)
      next
        case False
        with that[of "replicate (length (OtherFiles info)) ([], None)"] show thesis
          by (simp add: s7_def unstageCalls_def ran_refl)
      qed
      obtain cp s8 where 8: "getCommitPrefix g s7 = (cp, s8)" by fastforce
      from getCommitPrefix_ran[OF 8] obtain rcp where rcp:
        "ran s7 s8 [([''config'', ''--get'', ''prrompt.commitPrefix''], rcp)] []"
        "cp = configured defaultCommitPrefix rcp" by blast
      define msg where "msg = (if IsMixed info
             then (''['' @ cp @ ''] '' @ Message info) @ NL @ NL @ ''Extracted from '' @ SourceBranch info
                    @ '' ('' @ take 7 (SHA info) @ '')''
             else ''['' @ cp @ ''] '' @ Message info)"
      have msgeq: "msg = commitText rcp info" by (simp add: msg_def commitText_def rcp(2))
      obtain rcommit s9 where 9: "runGit g [''commit'', ''-m'', msg] s8 = (rcommit, s9)" by fastforce
      from ran_trans[OF ran_trans[OF ran_trans[OF B rs(2)] rcp(1)] runGit_ran[OF 9]]
      have C: "ran s s9 (stagedCalls rbp rbase info rcreate rpick rs rcp rcommit) (header rbp info)"
        by (simp add: stagedCalls_def msgeq)
      show thesis
      proof (cases "snd rcommit")
        case (Some e)
        from cleanup_ran[of s9 g "SourceBranch info" pb] obtain ra rc rd where
          cl: "ran s9 (cleanup g (SourceBranch info) pb s9) (cleanupCalls rbp info ra rc rd) []"
          unfolding cleanupCalls_def pbeq by blast
        from Some c0 c1 1 3 4 6 8 9 run len
        have "r = Failure (Errorf ''failed to commit: '' e)
                \<and> s' = cleanup g (SourceBranch info) pb s9"
          by (cases rcreate, cases rpick, cases rcommit, cases "IsMixed info")
             (simp_all add: extractPrompts_def Let_def pb_def s2_def s5_def s7_def msg_def)
        with ran_trans[OF C cl] Some c0 c1 rs(1) show thesis
          by (intro commit[of rcreate rpick rcommit e rs rbp rbase rcp ra rc rd])
             (simp_all add: ran_newCalls ran_newOutput)
      next
        case None
        note c2 = None
        define s10 where "s10 = Printf (CHECK @ '' Created skill branch: '' @ pb @ NL) s9"
        obtain rpush s11 where 11: "runGit g [''push'', ''origin'', pb, ''-u''] s10 = (rpush, s11)"
          by fastforce
        define s12 where "s12 = (case snd rpush of
                 Some e \<Rightarrow>
                   Printf (''Warning: failed to push (you may need to push manually): ''
                             @ Error e @ NL) s11
               | None \<Rightarrow> Printf (CHECK @ '' Pushed to origin/'' @ pb @ NL) s11)"
        obtain rback s13 where 13: "runGit g [''checkout'', ''-f'', SourceBranch info] s12 = (rback, s13)"
          by fastforce
        have p1: "ran s9 s10 [] [CHECK @ '' Created skill branch: '' @ promptBranchOf rbp info @ NL]"
          by (simp add: s10_def ran_def pbeq)
        have p2: "ran s11 s12 [] [pushLine rbp info rpush]"
          by (simp add: s12_def ran_def pushLine_def pbeq split: option.splits)
        from ran_trans[OF ran_trans[OF ran_trans[OF ran_trans[OF C p1] runGit_ran[OF 11]] p2] runGit_ran[OF 13]]
        have D: "ran s s13 (stagedCalls rbp rbase info rcreate rpick rs rcp rcommit
                   @ publishCalls rbp info rpush rback)
                   (header rbp info @ publishLines rbp info rpush)"
          by (simp add: publishCalls_def publishLines_def pbeq)
        show thesis
        proof (cases "snd rback")
          case (Some e)
          from Some c0 c1 c2 1 3 4 6 8 9 11 13 run len
          have "r = Failure (Errorf ''failed to return to original branch: '' e) \<and> s' = s13"
            by (cases rcreate, cases rpick, cases rcommit, cases rpush, cases rback, cases "IsMixed info"; cases "snd rpush")
               (simp_all add: extractPrompts_def Let_def pb_def s2_def s5_def s7_def msg_def s10_def s12_def)
          with D Some c0 c1 c2 rs(1) show thesis
            by (intro return[of rcreate rpick rcommit rback e rs rbp rbase rcp rpush])
               (simp_all add: ran_newCalls ran_newOutput)
        next
          case None
          obtain url s14 where 14: "generatePRURL g pb s13 = (url, s14)" by fastforce
          from generatePRURL_ran[OF 14] obtain cs where cs:
            "ran s13 s14 cs []" "\<forall>c\<in>set cs. isQuery (fst c)" by blast
          define s15 where "s15 = Printf (NL @ ''Create PR: '' @ url @ NL @ NL)
                                   (Printf (NL @ CHECK @ '' Skill extraction complete!'' @ NL) s14)"
          have p3: "ran s14 s15 [] [NL @ CHECK @ '' Skill extraction complete!'' @ NL,
                                     NL @ ''Create PR: '' @ url @ NL @ NL]"
            by (simp add: s15_def ran_def)
          from None c0 c1 c2 1 3 4 6 8 9 11 13 14 run len
          have "r = Success \<and> s' = s15"
            by (cases rcreate, cases rpick, cases rcommit, cases rpush, cases rback, cases "IsMixed info"; cases "snd rpush")
               (simp_all add: extractPrompts_def Let_def pb_def s2_def s5_def s7_def msg_def s10_def
                  s12_def s15_def)
          with ran_trans[OF ran_trans[OF D cs(1)] p3] None c0 c1 c2 rs(1) cs(2) show thesis
            by (intro finish[of rcreate rpick rcommit rback rs rbp rbase rcp rpush cs url])
               (simp_all add: ran_newCalls ran_newOutput)
        qed
      qed
    qed
  qed
qed

lemma onPromptBranch_ran:
  assumes "onPromptBranch g s = (b, s')"
  shows "\<exists>cs. ran s s' cs [] \<and> (\<forall>c\<in>set cs. isQuery (fst c))"
proof -
  obtain r s1 where 1: "runGit g [''rev-parse'', ''--abbrev-ref'', ''HEAD''] s = (r, s1)" by fastforce
  obtain v s2 where 2: "getBranchPrefix g s1 = (v, s2)" by fastforce
  from getBranchPrefix_ran[OF 2] obtain r' where r':
    "ran s1 s2 [([''config'', ''--get'', ''prrompt.branchPrefix''], r')] []" by blast
  have q1: "isQuery [''rev-parse'', ''--abbrev-ref'', ''HEAD'']" by (simp add: isQuery_def)
  have q2: "isQuery [''config'', ''--get'', ''prrompt.branchPrefix'']" by (simp add: isQuery_def)
  from assms 1 2 have "s' = s1 \<or> s' = s2"
    by (cases r) (auto simp: onPromptBranch_def split: if_splits)
  then show ?thesis
  proof
    assume "s' = s1"
    with runGit_ran[OF 1] q1 show ?thesis by fastforce
  next
    assume "s' = s2"
    with ran_trans[OF runGit_ran[OF 1] r'] q1 q2 show ?thesis by fastforce
  qed
qed

lemma classifyFiles_ran:
  "classifyFiles g lines info s = (info', s') \<Longrightarrow>
   \<exists>rs. ran s s' (map (\<lambda>r. (patternsQuery, r)) rs) []"
proof (induction lines arbitrary: info s)
  case Nil
  then have "ran s s' (map (\<lambda>r. (patternsQuery, r)) []) []" by (simp add: ran_refl)
  then show ?case by blast
next
  case (Cons line lines)
  show ?case
  proof (cases "TrimSpace line = []")
    case True
    with Cons.prems have "classifyFiles g lines info s = (info', s')" by simp
    from Cons.IH[OF this] show ?thesis .
  next
    case False
    obtain pats s1 where 1: "getPromptPatterns g s = (pats, s1)" by fastforce
    from getPromptPatterns_ran[OF 1] obtain r where r: "ran s s1 [(patternsQuery, r)] []" by blast
    define info1 where "info1 = (if matchesPattern (TrimSpace line) pats
       then info\<lparr>PromptFiles := PromptFiles info @ [TrimSpace line]\<rparr>
       else info\<lparr>OtherFiles := OtherFiles info @ [TrimSpace line]\<rparr>)"
    from Cons.prems False 1 have "classifyFiles g lines info1 s1 = (info', s')"
      by (simp add: isPromptFile_def info1_def Let_def split: if_splits)
    from Cons.IH[OF this] obtain rs where "ran s1 s' (map (\<lambda>r. (patternsQuery, r)) rs) []" by blast
    from ran_trans[OF r this] have "ran s s' (map (\<lambda>r. (patternsQuery, r)) (r # rs)) []" by simp
    then show ?thesis by blast
  qed
qed

lemma analyzeCommit_ran:
  assumes "analyzeCommit g sha s = (res, s')"
  shows "\<exists>cs. ran s s' cs [] \<and> (\<forall>c\<in>set cs. isQuery (fst c))"
proof -
  let ?info = "\<lparr>SHA = sha, Message = [], PromptFiles = [], OtherFiles = [],
                  IsMixed = False, SourceBranch = []\<rparr>"
  obtain r1 s1 where 1: "runGit g [''log'', ''--format=%B'', ''-n'', ''1'', sha] s = (r1, s1)" by fastforce
  obtain r2 s2 where 2: "runGit g [''rev-parse'', ''--abbrev-ref'', ''HEAD''] s1 = (r2, s2)" by fastforce
  obtain r3 s3 where 3: "runGit g [''diff-tree'', ''--no-commit-id'', ''--name-only'', ''-r'', sha] s2 = (r3, s3)" by fastforce
  obtain info4 s4 where 4: "classifyFiles g (Split (fst r3) NL) (?info\<lparr>Message := fst r1, SourceBranch := fst r2\<rparr>) s3 = (info4, s4)" by fastforce
  from classifyFiles_ran[OF 4] obtain rs where rs: "ran s3 s4 (map (\<lambda>r. (patternsQuery, r)) rs) []" by blast
  have q: "isQuery [''log'', ''--format=%B'', ''-n'', ''1'', sha]"
     "isQuery [''rev-parse'', ''--abbrev-ref'', ''HEAD'']"
     "isQuery [''diff-tree'', ''--no-commit-id'', ''--name-only'', ''-r'', sha]"
     "isQuery patternsQuery"
    by (simp_all add: isQuery_def)
  from assms 1 2 3 4 have "s' = s1 \<or> s' = s2 \<or> s' = s3 \<or> s' = s4"
    by (cases r1, cases r2, cases r3) (auto simp: analyzeCommit_def Let_def split: option.splits)
  moreover have "\<exists>cs. ran s s1 cs [] \<and> (\<forall>c\<in>set cs. isQuery (fst c))"
    using runGit_ran[OF 1] q by fastforce
  moreover have "\<exists>cs. ran s s2 cs [] \<and> (\<forall>c\<in>set cs. isQuery (fst c))"
    using ran_trans[OF runGit_ran[OF 1] runGit_ran[OF 2]] q by fastforce
  moreover have "\<exists>cs. ran s s3 cs [] \<and> (\<forall>c\<in>set cs. isQuery (fst c))"
    using ran_trans[OF ran_trans[OF runGit_ran[OF 1] runGit_ran[OF 2]] runGit_ran[OF 3]] q by fastforce
  moreover have "\<exists>cs. ran s s4 cs [] \<and> (\<forall>c\<in>set cs. isQuery (fst c))"
    using ran_trans[OF ran_trans[OF ran_trans[OF runGit_ran[OF 1] runGit_ran[OF 2]] runGit_ran[OF 3]] rs] q
    by fastforce
  ultimately show ?thesis by blast
qed


lemma classifyFiles_fields:
  "classifyFiles g lines info s = (info', s') \<Longrightarrow>
   SHA info' = SHA info \<and> Message info' = Message info \<and> SourceBranch info' = SourceBranch info"
proof (induction lines arbitrary: info s)
  case Nil
  then show ?case by simp
next
  case (Cons line lines)
  show ?case
  proof (cases "TrimSpace line = []")
    case True
    with Cons.prems have "classifyFiles g lines info s = (info', s')" by simp
    from Cons.IH[OF this] show ?thesis .
  next
    case False
    obtain b s1 where 1: "isPromptFile g (TrimSpace line) s = (b, s1)" by fastforce
    define info1 where "info1 = (if b
       then info\<lparr>PromptFiles := PromptFiles info @ [TrimSpace line]\<rparr>
       else info\<lparr>OtherFiles := OtherFiles info @ [TrimSpace line]\<rparr>)"
    from Cons.prems False 1 have "classifyFiles g lines info1 s1 = (info', s')"
      by (simp add: info1_def Let_def split: if_splits)
    from Cons.IH[OF this] show ?thesis by (simp add: info1_def split: if_splits)
  qed
qed

lemma analyzeCommit_info:
  assumes "analyzeCommit g sha s = (Inr info, s')"
  shows "SHA info = sha \<and> IsMixed info = (OtherFiles info \<noteq> [])"
proof -
  from assms obtain info0 lines s3 info4 where
    c: "classifyFiles g lines info0 s3 = (info4, s')" and
    i: "info = info4\<lparr>IsMixed := length (OtherFiles info4) > 0\<rparr>" and
    s: "SHA info0 = sha"
    by (auto simp: analyzeCommit_def Let_def split: prod.splits option.splits)
  from classifyFiles_fields[OF c] i s show ?thesis by simp
qed

lemma unstageCalls_verb: "(c, r) \<in> set (unstageCalls info rs) \<Longrightarrow> hd c = ''restore''"
  by (auto simp: unstageCalls_def dest!: set_zip_leftD split: if_splits)

lemma take_hd: "take n c = a # as \<Longrightarrow> hd c = a"
  by (cases c; cases n) auto

lemma query_verb:
  assumes "isQuery c"
  shows "hd c = ''rev-parse'' \<or> hd c = ''config'' \<or> hd c = ''log'' \<or> hd c = ''diff-tree''"
proof -
  from assms consider "c = [''rev-parse'', ''--abbrev-ref'', ''HEAD'']"
    | "take 2 c = [''config'', ''--get'']"
    | "take 4 c = [''log'', ''--format=%B'', ''-n'', ''1'']"
    | "take 4 c = [''diff-tree'', ''--no-commit-id'', ''--name-only'', ''-r'']"
    unfolding isQuery_def by blast
  then show ?thesis
  proof cases
    case 1
    then show ?thesis by simp
  next
    case 2
    from take_hd[OF this] show ?thesis by simp
  next
    case 3
    from take_hd[OF this] show ?thesis by simp
  next
    case 4
    from take_hd[OF this] show ?thesis by simp
  qed
qed

lemma in_queries:
  "(c, x) \<in> set cs \<Longrightarrow> \<forall>c\<in>set cs. isQuery (fst c) \<Longrightarrow>
   hd c = ''rev-parse'' \<or> hd c = ''config'' \<or> hd c = ''log'' \<or> hd c = ''diff-tree''"
  using query_verb by fastforce


lemma in_startCalls:
  "(c, x) \<in> set (startCalls rbp rbase info rcreate) \<Longrightarrow>
   hd c = ''config'' \<or>
   (c = [''checkout'', ''-b'', promptBranchOf rbp info, configured defaultBaseBranch rbase]
      \<and> x = rcreate)"
  unfolding startCalls_def by (elim set_ConsD [elim_format] disjE; simp)


lemma in_cleanupCalls:
  "(c, x) \<in> set (cleanupCalls rbp info ra rc rd) \<Longrightarrow>
   c = [''cherry-pick'', ''--abort''] \<or> hd c = ''checkout'' \<or> hd c = ''branch''"
  unfolding cleanupCalls_def by (elim set_ConsD [elim_format] disjE; simp)

lemma in_publishCalls:
  "(c, x) \<in> set (publishCalls rbp info rpush rback) \<Longrightarrow>
   (c = [''push'', ''origin'', promptBranchOf rbp info, ''-u''] \<and> x = rpush)
   \<or> (c = [''checkout'', ''-f'', SourceBranch info] \<and> x = rback)"
  unfolding publishCalls_def by (elim set_ConsD [elim_format] disjE; simp)

lemma in_stagedCalls:
  assumes "(c, x) \<in> set (stagedCalls rbp rbase info rcreate rpick rs rcp rcommit)"
  shows "hd c = ''config'' \<or> hd c = ''checkout'' \<or> hd c = ''restore''
   \<or> (c = [''cherry-pick'', SHA info, ''--no-commit''] \<and> x = rpick)
   \<or> (c = [''commit'', ''-m'', commitText rcp info] \<and> x = rcommit)"
proof -
  from assms consider
      (a) "(c, x) \<in> set (startCalls rbp rbase info rcreate)"
    | (b) "(c, x) = ([''cherry-pick'', SHA info, ''--no-commit''], rpick)"
    | (u) "(c, x) \<in> set (unstageCalls info rs)"
    | (p) "(c, x) = ([''config'', ''--get'', ''prrompt.commitPrefix''], rcp)"
    | (m) "(c, x) = ([''commit'', ''-m'', commitText rcp info], rcommit)"
    unfolding stagedCalls_def by (simp only: set_append Un_iff set_simps insert_iff empty_iff) blast
  then show ?thesis
  proof cases
    case a
    from in_startCalls[OF this] show ?thesis by (elim disjE conjE; simp)
  next
    case b
    then show ?thesis by simp
  next
    case u
    from unstageCalls_verb[OF this] show ?thesis by simp
  next
    case p
    then show ?thesis by simp
  next
    case m
    then show ?thesis by simp
  qed
qed

lemma create_in_stagedCalls:
  "([''checkout'', ''-b'', promptBranchOf rbp info, configured defaultBaseBranch rbase], rcreate)
     \<in> set (stagedCalls rbp rbase info rcreate rpick rs rcp rcommit)"
  by (simp add: stagedCalls_def startCalls_def)

lemma short_sha_no_calls:
  "extractPrompts g info s = (r, s') \<Longrightarrow> \<not> 7 \<le> length (SHA info) \<Longrightarrow> newCalls s s' = []"
  by (simp add: extractPrompts_def newCalls_def)

lemma locate_commit:
  assumes run: "extractPrompts g info s = (r, s')"
    and mem: "(c, x) \<in> set (newCalls s s')"
    and verb: "hd c = ''commit''"
  shows "\<exists>rbp rbase rcreate rpick rs rcp rest.
           snd rcreate = None \<and> snd rpick = None \<and> length rs = length (OtherFiles info)
         \<and> newCalls s s' = stagedCalls rbp rbase info rcreate rpick rs rcp x @ rest
         \<and> c = [''commit'', ''-m'', commitText rcp info]"
proof (cases "7 \<le> length (SHA info)")
  case False
  with run mem show ?thesis by (simp add: short_sha_no_calls)
next
  case True
  let ?x = "(c, x)"
  have notStart: False if "?x \<in> set (startCalls rbp rbase info rcreate)" for rbp rbase rcreate
    using in_startCalls[OF that] verb by (elim disjE conjE; simp)
  have notCleanup: False if "?x \<in> set (cleanupCalls rbp info ra rc rd)" for rbp ra rc rd
    using in_cleanupCalls[OF that] verb by (elim disjE conjE; simp)
  have notPublish: False if "?x \<in> set (publishCalls rbp info rpush rback)" for rbp rpush rback
    using in_publishCalls[OF that] verb by (elim disjE conjE; simp)
  have staged: "c = [''commit'', ''-m'', commitText rcp info] \<and> x = rcommit"
    if "?x \<in> set (stagedCalls rbp rbase info rcreate rpick rs rcp rcommit)"
    for rbp rbase rcreate rpick rs rcp rcommit
    using in_stagedCalls[OF that] verb by (elim disjE conjE; simp)
  from run True show ?thesis
  proof (cases rule: extractPrompts_cases)
    case (create rbp rbase rcreate e')
    from mem create(2) have "?x \<in> set (startCalls rbp rbase info rcreate)" by simp
    from notStart[OF this] show ?thesis ..
  next
    case (pick rbp rbase rcreate rpick e' ra rc rd)
    from mem pick(3) have "?x \<in> set (startCalls rbp rbase info rcreate)
        \<or> ?x = ([''cherry-pick'', SHA info, ''--no-commit''], rpick)
        \<or> ?x \<in> set (cleanupCalls rbp info ra rc rd)" by auto
    with notStart notCleanup
    have "?x = ([''cherry-pick'', SHA info, ''--no-commit''], rpick)" by blast
    with verb have False by simp
    then show ?thesis ..
  next
    case (commit rbp rbase rcreate rpick rs rcp rcommit e' ra rc rd)
    from mem commit(5)
    have "?x \<in> set (stagedCalls rbp rbase info rcreate rpick rs rcp rcommit)
        \<or> ?x \<in> set (cleanupCalls rbp info ra rc rd)" by auto
    with notCleanup
    have "?x \<in> set (stagedCalls rbp rbase info rcreate rpick rs rcp rcommit)" by blast
    from staged[OF this] commit(1,2,4,5) show ?thesis by blast
  next
    case (return rbp rbase rcreate rpick rs rcp rcommit rpush rback e')
    from mem return(6)
    have "?x \<in> set (stagedCalls rbp rbase info rcreate rpick rs rcp rcommit)
        \<or> ?x \<in> set (publishCalls rbp info rpush rback)" by auto
    with notPublish
    have "?x \<in> set (stagedCalls rbp rbase info rcreate rpick rs rcp rcommit)" by blast
    from staged[OF this] return(1,2,5,6) show ?thesis by blast
  next
    case (finish rbp rbase rcreate rpick rs rcp rcommit rpush rback cs url)
    have notQuery: False if "?x \<in> set cs"
      using in_queries[OF that finish(7)] verb by (elim disjE conjE; simp)
    from mem finish(6)
    have "?x \<in> set (stagedCalls rbp rbase info rcreate rpick rs rcp rcommit)
        \<or> ?x \<in> set (publishCalls rbp info rpush rback) \<or> ?x \<in> set cs" by auto
    with notPublish notQuery
    have "?x \<in> set (stagedCalls rbp rbase info rcreate rpick rs rcp rcommit)" by blast
    from staged[OF this] finish(1,2,5,6) show ?thesis
      by blast
  qed
qed


lemma locate_pick:
  assumes run: "extractPrompts g info s = (r, s')"
    and mem: "([''cherry-pick'', SHA info, ''--no-commit''], (out, None)) \<in> set (newCalls s s')"
  shows "\<exists>rbp rbase rcreate rs rcp rcommit rest.
           snd rcreate = None \<and> length rs = length (OtherFiles info)
         \<and> newCalls s s' = stagedCalls rbp rbase info rcreate (out, None) rs rcp rcommit @ rest"
proof (cases "7 \<le> length (SHA info)")
  case False
  with run mem show ?thesis by (simp add: short_sha_no_calls)
next
  case True
  let ?c = "[''cherry-pick'', SHA info, ''--no-commit'']"
  let ?x = "(?c, (out, None :: error option))"
  have notStart: False if "?x \<in> set (startCalls rbp rbase info rcreate)" for rbp rbase rcreate
    using in_startCalls[OF that] by (elim disjE conjE; simp)
  have notCleanup: False if "?x \<in> set (cleanupCalls rbp info ra rc rd)" for rbp ra rc rd
    using in_cleanupCalls[OF that] by (elim disjE conjE; simp)
  have notPublish: False if "?x \<in> set (publishCalls rbp info rpush rback)" for rbp rpush rback
    using in_publishCalls[OF that] by (elim disjE conjE; simp)
  have staged: "rpick = (out, None)"
    if "?x \<in> set (stagedCalls rbp rbase info rcreate rpick rs rcp rcommit)"
    for rbp rbase rcreate rpick rs rcp rcommit
    using in_stagedCalls[OF that] by (elim disjE conjE; simp)
  from run True show ?thesis
  proof (cases rule: extractPrompts_cases)
    case (create rbp rbase rcreate e')
    from mem create(2) have "?x \<in> set (startCalls rbp rbase info rcreate)" by simp
    from notStart[OF this] show ?thesis ..
  next
    case (pick rbp rbase rcreate rpick e' ra rc rd)
    from mem pick(3) have "?x \<in> set (startCalls rbp rbase info rcreate)
        \<or> ?x = (?c, rpick)
        \<or> ?x \<in> set (cleanupCalls rbp info ra rc rd)" by auto
    with notStart notCleanup have "?x = (?c, rpick)" by blast
    with pick(2) have False by auto
    then show ?thesis ..
  next
    case (commit rbp rbase rcreate rpick rs rcp rcommit e' ra rc rd)
    from mem commit(5)
    have "?x \<in> set (stagedCalls rbp rbase info rcreate rpick rs rcp rcommit)
        \<or> ?x \<in> set (cleanupCalls rbp info ra rc rd)" by auto
    with notCleanup
    have "?x \<in> set (stagedCalls rbp rbase info rcreate rpick rs rcp rcommit)" by blast
    from staged[OF this] commit(1,4,5) show ?thesis by blast
  next
    case (return rbp rbase rcreate rpick rs rcp rcommit rpush rback e')
    from mem return(6)
    have "?x \<in> set (stagedCalls rbp rbase info rcreate rpick rs rcp rcommit)
        \<or> ?x \<in> set (publishCalls rbp info rpush rback)" by auto
    with notPublish
    have "?x \<in> set (stagedCalls rbp rbase info rcreate rpick rs rcp rcommit)" by blast
    from staged[OF this] return(1,5,6) show ?thesis by blast
  next
    case (finish rbp rbase rcreate rpick rs rcp rcommit rpush rback cs url)
    have notQuery: False if "?x \<in> set cs"
      using in_queries[OF that finish(7)] by (elim disjE conjE; simp)
    from mem finish(6)
    have "?x \<in> set (stagedCalls rbp rbase info rcreate rpick rs rcp rcommit)
        \<or> ?x \<in> set (publishCalls rbp info rpush rback) \<or> ?x \<in> set cs" by auto
    with notPublish notQuery
    have "?x \<in> set (stagedCalls rbp rbase info rcreate rpick rs rcp rcommit)" by blast
    from staged[OF this] finish(1,5,6) show ?thesis by blast
  qed
qed

lemma staged_verbs:
  assumes "(c, x) \<in> set (stagedCalls rbp rbase info rcreate rpick rs rcp rcommit)"
  shows "hd c \<noteq> ''branch'' \<and> hd c \<noteq> ''push''"
  using in_stagedCalls[OF assms] by (elim disjE conjE; simp)

lemma publish_verbs:
  assumes "(c, x) \<in> set (publishCalls rbp info rpush rback)"
  shows "hd c \<noteq> ''branch''"
  using in_publishCalls[OF assms] by (elim disjE conjE; simp)

lemma query_verbs:
  assumes "(c, x) \<in> set cs" "\<forall>c\<in>set cs. isQuery (fst c)"
  shows "hd c \<noteq> ''branch'' \<and> hd c \<noteq> ''push''"
  using in_queries[OF assms] by (elim disjE conjE; simp)

lemma locate_push:
  assumes run: "extractPrompts g info s = (r, s')"
    and mem: "(c, x) \<in> set (newCalls s s')"
    and verb: "hd c = ''push''"
  shows "\<exists>rbp rbase rcreate rpick rs rcp rcommit rback cs lines.
           snd rcreate = None
         \<and> newCalls s s' = stagedCalls rbp rbase info rcreate rpick rs rcp rcommit
                             @ publishCalls rbp info x rback @ cs
         \<and> c = [''push'', ''origin'', promptBranchOf rbp info, ''-u'']
         \<and> (\<forall>d\<in>set cs. isQuery (fst d))
         \<and> newOutput s s' = header rbp info @ publishLines rbp info x @ lines
         \<and> (case snd rback of
               None \<Rightarrow> r = Success \<and> (\<exists>url. lines = [NL @ CHECK @ '' Skill extraction complete!'' @ NL,
                                                          NL @ ''Create PR: '' @ url @ NL @ NL])
             | Some e \<Rightarrow> r = Failure (Errorf ''failed to return to original branch: '' e))"
proof (cases "7 \<le> length (SHA info)")
  case False
  with run mem show ?thesis by (simp add: short_sha_no_calls)
next
  case True
  let ?x = "(c, x)"
  have notStart: False if "?x \<in> set (startCalls rbp rbase info rcreate)" for rbp rbase rcreate
    using in_startCalls[OF that] verb by (elim disjE conjE; simp)
  have notCleanup: False if "?x \<in> set (cleanupCalls rbp info ra rc rd)" for rbp ra rc rd
    using in_cleanupCalls[OF that] verb by (elim disjE conjE; simp)
  have notStaged: False if "?x \<in> set (stagedCalls rbp rbase info rcreate rpick rs rcp rcommit)"
    for rbp rbase rcreate rpick rs rcp rcommit
    using staged_verbs[OF that] verb by simp
  have publish: "c = [''push'', ''origin'', promptBranchOf rbp info, ''-u''] \<and> x = rpush"
    if "?x \<in> set (publishCalls rbp info rpush rback)" for rbp rpush rback
    using in_publishCalls[OF that] verb by (elim disjE conjE; simp)
  from run True show ?thesis
  proof (cases rule: extractPrompts_cases)
    case (create rbp rbase rcreate e')
    from mem create(2) have "?x \<in> set (startCalls rbp rbase info rcreate)" by simp
    from notStart[OF this] show ?thesis ..
  next
    case (pick rbp rbase rcreate rpick e' ra rc rd)
    from mem pick(3) have "?x \<in> set (startCalls rbp rbase info rcreate)
        \<or> ?x = ([''cherry-pick'', SHA info, ''--no-commit''], rpick)
        \<or> ?x \<in> set (cleanupCalls rbp info ra rc rd)" by auto
    with notStart notCleanup
    have "?x = ([''cherry-pick'', SHA info, ''--no-commit''], rpick)" by blast
    with verb have False by simp
    then show ?thesis ..
  next
    case (commit rbp rbase rcreate rpick rs rcp rcommit e' ra rc rd)
    from mem commit(5)
    have "?x \<in> set (stagedCalls rbp rbase info rcreate rpick rs rcp rcommit)
        \<or> ?x \<in> set (cleanupCalls rbp info ra rc rd)" by auto
    with notCleanup notStaged have False by blast
    then show ?thesis ..
  next
    case (return rbp rbase rcreate rpick rs rcp rcommit rpush rback e')
    from mem return(6)
    have "?x \<in> set (stagedCalls rbp rbase info rcreate rpick rs rcp rcommit)
        \<or> ?x \<in> set (publishCalls rbp info rpush rback)" by auto
    with notStaged have "?x \<in> set (publishCalls rbp info rpush rback)" by blast
    from publish[OF this] have c: "c = [''push'', ''origin'', promptBranchOf rbp info, ''-u'']"
      and x: "x = rpush" by simp_all
    show ?thesis
      apply (rule exI[of _ rbp], rule exI[of _ rbase], rule exI[of _ rcreate], rule exI[of _ rpick])
      apply (rule exI[of _ rs], rule exI[of _ rcp], rule exI[of _ rcommit], rule exI[of _ rback])
      apply (rule exI[of _ "[]"], rule exI[of _ "[]"])
      using return c x by simp
  next
    case (finish rbp rbase rcreate rpick rs rcp rcommit rpush rback cs url)
    have notQuery: False if "?x \<in> set cs"
      using query_verbs[OF that finish(7)] verb by simp
    from mem finish(6)
    have "?x \<in> set (stagedCalls rbp rbase info rcreate rpick rs rcp rcommit)
        \<or> ?x \<in> set (publishCalls rbp info rpush rback) \<or> ?x \<in> set cs" by auto
    with notStaged notQuery have "?x \<in> set (publishCalls rbp info rpush rback)" by blast
    from publish[OF this] have c: "c = [''push'', ''origin'', promptBranchOf rbp info, ''-u'']"
      and x: "x = rpush" by simp_all
    show ?thesis
      apply (rule exI[of _ rbp], rule exI[of _ rbase], rule exI[of _ rcreate], rule exI[of _ rpick])
      apply (rule exI[of _ rs], rule exI[of _ rcp], rule exI[of _ rcommit], rule exI[of _ rback])
      apply (rule exI[of _ cs])
      apply (rule exI[of _ "[NL @ CHECK @ '' Skill extraction complete!'' @ NL,
                              NL @ ''Create PR: '' @ url @ NL @ NL]"])
      using finish c x by simp
  qed
qed

lemma in_cleanupCalls_shape:
  "(c, x) \<in> set (cleanupCalls rbp info ra rc rd) \<Longrightarrow> length c = 2 \<or> hd c = ''branch''"
  unfolding cleanupCalls_def by (elim set_ConsD [elim_format] disjE; simp)

lemma in_stagedCalls_start:
  assumes "(c, x) \<in> set (stagedCalls rbp rbase info rcreate rpick rs rcp rcommit)"
  shows "(c, x) \<in> set (startCalls rbp rbase info rcreate)
   \<or> hd c = ''cherry-pick'' \<or> hd c = ''restore'' \<or> hd c = ''config'' \<or> hd c = ''commit''"
proof -
  from assms consider
      (a) "(c, x) \<in> set (startCalls rbp rbase info rcreate)"
    | (b) "(c, x) = ([''cherry-pick'', SHA info, ''--no-commit''], rpick)"
    | (u) "(c, x) \<in> set (unstageCalls info rs)"
    | (p) "(c, x) = ([''config'', ''--get'', ''prrompt.commitPrefix''], rcp)"
    | (m) "(c, x) = ([''commit'', ''-m'', commitText rcp info], rcommit)"
    unfolding stagedCalls_def by (simp only: set_append Un_iff set_simps insert_iff empty_iff) blast
  then show ?thesis
  proof cases
    case a
    then show ?thesis by simp
  next
    case b
    then show ?thesis by simp
  next
    case u
    from unstageCalls_verb[OF this] show ?thesis by simp
  next
    case p
    then show ?thesis by simp
  next
    case m
    then show ?thesis by simp
  qed
qed

lemma in_publishCalls_shape:
  "(c, x) \<in> set (publishCalls rbp info rpush rback) \<Longrightarrow> hd c = ''push'' \<or> length c = 3"
  unfolding publishCalls_def by (elim set_ConsD [elim_format] disjE; simp)

lemma locate_create:
  assumes run: "extractPrompts g info s = (r, s')"
    and mem: "(c, x) \<in> set (newCalls s s')"
    and len: "length c = 4"
    and shape: "take 2 c = [''checkout'', ''-b'']"
  shows "\<exists>rbp rbase rest.
           newCalls s s' = startCalls rbp rbase info x @ rest
         \<and> c = [''checkout'', ''-b'', promptBranchOf rbp info, configured defaultBaseBranch rbase]"
proof (cases "7 \<le> length (SHA info)")
  case False
  with run mem show ?thesis by (simp add: short_sha_no_calls)
next
  case True
  let ?x = "(c, x)"
  from take_hd[OF shape] have verb: "hd c = ''checkout''" .
  have started: "c = [''checkout'', ''-b'', promptBranchOf rbp info, configured defaultBaseBranch rbase]
        \<and> x = rcreate"
    if "?x \<in> set (startCalls rbp rbase info rcreate)" for rbp rbase rcreate
    using in_startCalls[OF that] verb by (elim disjE conjE; simp)
  have notCleanup: False if "?x \<in> set (cleanupCalls rbp info ra rc rd)" for rbp ra rc rd
    using in_cleanupCalls_shape[OF that] verb len by (elim disjE conjE; simp)
  have notPublish: False if "?x \<in> set (publishCalls rbp info rpush rback)" for rbp rpush rback
    using in_publishCalls_shape[OF that] verb len by (elim disjE conjE; simp)
  have staged: "?x \<in> set (startCalls rbp rbase info rcreate)"
    if "?x \<in> set (stagedCalls rbp rbase info rcreate rpick rs rcp rcommit)"
    for rbp rbase rcreate rpick rs rcp rcommit
    using in_stagedCalls_start[OF that] verb by (elim disjE conjE; simp)
  from run True show ?thesis
  proof (cases rule: extractPrompts_cases)
    case (create rbp rbase rcreate e')
    from mem create(2) have "?x \<in> set (startCalls rbp rbase info rcreate)" by simp
    from started[OF this] create(2)
    have "newCalls s s' = startCalls rbp rbase info x @ []
         \<and> c = [''checkout'', ''-b'', promptBranchOf rbp info, configured defaultBaseBranch rbase]"
      by simp
    then show ?thesis by blast
  next
    case (pick rbp rbase rcreate rpick e' ra rc rd)
    from mem pick(3) have "?x \<in> set (startCalls rbp rbase info rcreate)
        \<or> ?x = ([''cherry-pick'', SHA info, ''--no-commit''], rpick)
        \<or> ?x \<in> set (cleanupCalls rbp info ra rc rd)" by auto
    moreover have "?x \<noteq> ([''cherry-pick'', SHA info, ''--no-commit''], rpick)"
      using verb by auto
    ultimately have "?x \<in> set (startCalls rbp rbase info rcreate)" using notCleanup by blast
    from started[OF this] pick(3) show ?thesis by blast
  next
    case (commit rbp rbase rcreate rpick rs rcp rcommit e' ra rc rd)
    from mem commit(5)
    have "?x \<in> set (stagedCalls rbp rbase info rcreate rpick rs rcp rcommit)
        \<or> ?x \<in> set (cleanupCalls rbp info ra rc rd)" by auto
    with notCleanup staged have "?x \<in> set (startCalls rbp rbase info rcreate)" by blast
    from started[OF this] commit(5) show ?thesis
      unfolding stagedCalls_def by (metis append.assoc)
  next
    case (return rbp rbase rcreate rpick rs rcp rcommit rpush rback e')
    from mem return(6)
    have "?x \<in> set (stagedCalls rbp rbase info rcreate rpick rs rcp rcommit)
        \<or> ?x \<in> set (publishCalls rbp info rpush rback)" by auto
    with notPublish staged have "?x \<in> set (startCalls rbp rbase info rcreate)" by blast
    from started[OF this] return(6) show ?thesis
      unfolding stagedCalls_def by (metis append.assoc)
  next
    case (finish rbp rbase rcreate rpick rs rcp rcommit rpush rback cs url)
    have notQuery: False if "?x \<in> set cs"
      using in_queries[OF that finish(7)] verb by (elim disjE conjE; simp)
    from mem finish(6)
    have "?x \<in> set (stagedCalls rbp rbase info rcreate rpick rs rcp rcommit)
        \<or> ?x \<in> set (publishCalls rbp info rpush rback) \<or> ?x \<in> set cs" by auto
    with notPublish notQuery staged have "?x \<in> set (startCalls rbp rbase info rcreate)" by blast
    from started[OF this] finish(6) show ?thesis
      unfolding stagedCalls_def by (metis append.assoc)
  qed
qed

lemma trimmedPatterns_filter:
  "trimmedPatterns ps acc = acc @ filter (\<lambda>p. p \<noteq> []) (map TrimSpace ps)"
  by (induction ps arbitrary: acc) simp_all

lemma matchesPattern_iff:
  "matchesPattern path pats = list_ex (\<lambda>pat. prefix pat path) pats"
  by (induction pats) (simp_all add: HasPrefix_def)

text \<open>
  What the code does after a failed cherry-pick or commit, for every gateway: the run ends
  with the three commands of \<open>cleanup\<close>, each issued whatever the replies to the others
  are, and returns the error of the failed step, wrapped. The replies are dropped.
\<close>

lemma failed_step_is_compensated:
  assumes run: "extractPrompts g info s = (r, s')"
    and failed: "(c, (out, Some e)) \<in> set (newCalls s s')"
    and step: "c = [''cherry-pick'', SHA info, ''--no-commit''] \<or> hd c = ''commit''"
  shows "\<exists>pre promptBranch baseBranch rcreate ra rc rd.
           newCalls s s' = pre @ [(c, (out, Some e)),
                                  ([''cherry-pick'', ''--abort''], ra),
                                  ([''checkout'', SourceBranch info], rc),
                                  ([''branch'', ''-D'', promptBranch], rd)]
         \<and> ([''checkout'', ''-b'', promptBranch, baseBranch], rcreate) \<in> set pre
         \<and> snd rcreate = None
         \<and> r = Failure (Errorf (if hd c = ''commit'' then ''failed to commit: ''
                                 else ''failed to cherry-pick: '') e)"
proof (cases "7 \<le> length (SHA info)")
  case False
  with run failed show ?thesis by (simp add: short_sha_no_calls)
next
  case True
  from step have verb: "(hd c = ''cherry-pick'' \<and> length c = 3) \<or> hd c = ''commit''" by auto
  have notStart: False if "(c, (out, Some e)) \<in> set (startCalls rbp rbase info rcreate)"
    for rbp rbase rcreate
    using in_startCalls[OF that] verb by (elim disjE conjE; simp)
  have notCleanup: False if "(c, (out, Some e)) \<in> set (cleanupCalls rbp info ra rc rd)"
    for rbp ra rc rd
    using in_cleanupCalls[OF that] verb by (elim disjE conjE; simp)
  have notPublish: False if "(c, (out, Some e)) \<in> set (publishCalls rbp info rpush rback)"
    for rbp rpush rback
    using in_publishCalls[OF that] verb by (elim disjE conjE; simp)
  have staged: "(c = [''cherry-pick'', SHA info, ''--no-commit''] \<and> rpick = (out, Some e))
       \<or> (c = [''commit'', ''-m'', commitText rcp info] \<and> rcommit = (out, Some e))"
    if "(c, (out, Some e)) \<in> set (stagedCalls rbp rbase info rcreate rpick rs rcp rcommit)"
    for rbp rbase rcreate rpick rs rcp rcommit
    using in_stagedCalls[OF that] verb by (elim disjE conjE; simp)
  let ?x = "(c, (out, Some e))"
  from run True show ?thesis
  proof (cases rule: extractPrompts_cases)
    case (create rbp rbase rcreate e')
    from failed create(2) have "?x \<in> set (startCalls rbp rbase info rcreate)" by simp
    from notStart[OF this] show ?thesis ..
  next
    case (pick rbp rbase rcreate rpick e' ra rc rd)
    from failed pick(3) have "?x \<in> set (startCalls rbp rbase info rcreate)
        \<or> ?x = ([''cherry-pick'', SHA info, ''--no-commit''], rpick)
        \<or> ?x \<in> set (cleanupCalls rbp info ra rc rd)" by auto
    with notStart notCleanup
    have "?x = ([''cherry-pick'', SHA info, ''--no-commit''], rpick)" by blast
    then have *: "c = [''cherry-pick'', SHA info, ''--no-commit'']" "rpick = (out, Some e)" by simp_all
    with pick(2) have "e' = e" by simp
    with * pick(1,3,5) show ?thesis
      by (intro exI[of _ "startCalls rbp rbase info rcreate"] exI[of _ "promptBranchOf rbp info"]
            exI[of _ "configured defaultBaseBranch rbase"] exI[of _ rcreate]
            exI[of _ ra] exI[of _ rc] exI[of _ rd])
         (simp add: startCalls_def cleanupCalls_def)
  next
    case (commit rbp rbase rcreate rpick rs rcp rcommit e' ra rc rd)
    from failed commit(5)
    have "?x \<in> set (stagedCalls rbp rbase info rcreate rpick rs rcp rcommit)
        \<or> ?x \<in> set (cleanupCalls rbp info ra rc rd)" by auto
    with notCleanup
    have "?x \<in> set (stagedCalls rbp rbase info rcreate rpick rs rcp rcommit)" by blast
    from staged[OF this] commit(2)
    have *: "c = [''commit'', ''-m'', commitText rcp info]" "rcommit = (out, Some e)" by auto
    with commit(3) have "e' = e" by simp
    with * commit(1,5,7) show ?thesis
      by (intro exI[of _ "startCalls rbp rbase info rcreate
             @ [([''cherry-pick'', SHA info, ''--no-commit''], rpick)]
             @ unstageCalls info rs
             @ [([''config'', ''--get'', ''prrompt.commitPrefix''], rcp)]"]
            exI[of _ "promptBranchOf rbp info"]
            exI[of _ "configured defaultBaseBranch rbase"] exI[of _ rcreate]
            exI[of _ ra] exI[of _ rc] exI[of _ rd])
         (simp add: stagedCalls_def startCalls_def cleanupCalls_def)
  next
    case (return rbp rbase rcreate rpick rs rcp rcommit rpush rback e')
    from failed return(6)
    have "?x \<in> set (stagedCalls rbp rbase info rcreate rpick rs rcp rcommit)
        \<or> ?x \<in> set (publishCalls rbp info rpush rback)" by auto
    with notPublish
    have "?x \<in> set (stagedCalls rbp rbase info rcreate rpick rs rcp rcommit)" by blast
    from staged[OF this] return(2,3) have False by auto
    then show ?thesis ..
  next
    case (finish rbp rbase rcreate rpick rs rcp rcommit rpush rback cs url)
    have notQuery: False if "?x \<in> set cs"
      using in_queries[OF that finish(7)] verb by (elim disjE conjE; simp)
    from failed finish(6)
    have "?x \<in> set (stagedCalls rbp rbase info rcreate rpick rs rcp rcommit)
        \<or> ?x \<in> set (publishCalls rbp info rpush rback) \<or> ?x \<in> set cs" by auto
    with notPublish notQuery
    have "?x \<in> set (stagedCalls rbp rbase info rcreate rpick rs rcp rcommit)" by blast
    from staged[OF this] finish(2,3) have False by auto
    then show ?thesis ..
  qed
qed

text \<open>
  What the code does to the other files of a mixed commit, for every gateway: between the
  cherry-pick and the commit it issues one \<open>git restore --staged\<close> for each path of
  \<open>OtherFiles\<close>, in order, and drops the replies.
\<close>

lemma other_files_are_unstaged_only:
  assumes run: "extractPrompts g info s = (r, s')"
    and picked: "([''cherry-pick'', SHA info, ''--no-commit''], (out, None)) \<in> set (newCalls s s')"
    and mixed: "IsMixed info"
  shows "\<exists>pre rs rcp msg rcommit post.
           newCalls s s' =
             pre @ [([''cherry-pick'', SHA info, ''--no-commit''], (out, None))]
                 @ zip (map (\<lambda>file. [''restore'', ''--staged'', file]) (OtherFiles info)) rs
                 @ [([''config'', ''--get'', ''prrompt.commitPrefix''], rcp),
                    ([''commit'', ''-m'', msg], rcommit)]
                 @ post
         \<and> length rs = length (OtherFiles info)"
proof -
  from locate_pick[OF run picked] obtain rbp rbase rcreate rs rcp rcommit rest where
    l: "length rs = length (OtherFiles info)"
       "newCalls s s' = stagedCalls rbp rbase info rcreate (out, None) rs rcp rcommit @ rest"
    by blast
  from l(2) mixed have "newCalls s s' =
      startCalls rbp rbase info rcreate @ [([''cherry-pick'', SHA info, ''--no-commit''], (out, None))]
        @ zip (map (\<lambda>file. [''restore'', ''--staged'', file]) (OtherFiles info)) rs
        @ [([''config'', ''--get'', ''prrompt.commitPrefix''], rcp),
           ([''commit'', ''-m'', commitText rcp info], rcommit)]
        @ rest"
    by (simp add: stagedCalls_def unstageCalls_def)
  with l(1) show ?thesis by blast
qed

section \<open>Runs on the simulated repository\<close>

lemma mixed_run:
  "observed (extractPrompts simGit mixedInfo (start testRepo)) =
     (Success,
      [([''config'', ''--get'', ''prrompt.branchPrefix''], [], Some (ExecError ''exit status 1'')),
       ([''config'', ''--get'', ''prrompt.baseBranch''], [], Some (ExecError ''exit status 1'')),
       ([''checkout'', ''-b'', ''skill-update/3f9a1c2'', ''main''],
        ''Switched to a new branch skill-update/3f9a1c2'', None),
       ([''cherry-pick'', mixedSHA, ''--no-commit''], [], None),
       ([''restore'', ''--staged'', ''src/main.go''], [], None),
       ([''config'', ''--get'', ''prrompt.commitPrefix''], [], Some (ExecError ''exit status 1'')),
       ([''commit'', ''-m'',
         ''[prompt] Add prompt and code'' @ NL @ NL @ ''Extracted from feature-branch (3f9a1c2)''],
        ''[skill-update/3f9a1c2] [prompt] Add prompt and code'' @ NL @ NL
          @ ''Extracted from feature-branch (3f9a1c2)'', None),
       ([''push'', ''origin'', ''skill-update/3f9a1c2'', ''-u''],
        ''fatal: origin does not appear to be a git repository'',
        Some (ExecError ''exit status 128'')),
       ([''checkout'', ''-f'', ''feature-branch''], ''Switched to branch feature-branch'', None),
       ([''config'', ''--get'', ''remote.origin.url''], [], Some (ExecError ''exit status 1''))],
      testRepo\<lparr>heads := heads testRepo
        @ [(''skill-update/3f9a1c2'',
            ''[prompt] Add prompt and code'' @ NL @ NL @ ''Extracted from feature-branch (3f9a1c2)'',
            [''prompts/test.md''])]\<rparr>)"
  by code_simp

lemma rejecting_run:
  "observed (processCommit simGit mixedSHA (start rejectingRepo)) =
     (Failure (Errorf ''error extracting prompts: ''
                (Errorf ''failed to commit: '' (ExecError ''exit status 1''))),
      [([''rev-parse'', ''--abbrev-ref'', ''HEAD''], ''feature-branch'', None),
       ([''config'', ''--get'', ''prrompt.branchPrefix''], [], Some (ExecError ''exit status 1'')),
       ([''log'', ''--format=%B'', ''-n'', ''1'', mixedSHA], ''Add prompt and code'', None),
       ([''rev-parse'', ''--abbrev-ref'', ''HEAD''], ''feature-branch'', None),
       ([''diff-tree'', ''--no-commit-id'', ''--name-only'', ''-r'', mixedSHA],
        ''prompts/test.md'' @ NL @ ''src/main.go'', None),
       (patternsQuery, [], Some (ExecError ''exit status 1'')),
       (patternsQuery, [], Some (ExecError ''exit status 1'')),
       ([''config'', ''--get'', ''prrompt.branchPrefix''], [], Some (ExecError ''exit status 1'')),
       ([''config'', ''--get'', ''prrompt.baseBranch''], [], Some (ExecError ''exit status 1'')),
       ([''checkout'', ''-b'', ''skill-update/3f9a1c2'', ''main''],
        ''Switched to a new branch skill-update/3f9a1c2'', None),
       ([''cherry-pick'', mixedSHA, ''--no-commit''], [], None),
       ([''restore'', ''--staged'', ''src/main.go''], [], None),
       ([''config'', ''--get'', ''prrompt.commitPrefix''], [], Some (ExecError ''exit status 1'')),
       ([''commit'', ''-m'',
         ''[prompt] Add prompt and code'' @ NL @ NL @ ''Extracted from feature-branch (3f9a1c2)''],
        ''commit rejected by hook'', Some (ExecError ''exit status 1'')),
       ([''cherry-pick'', ''--abort''], ''error: no cherry-pick or revert in progress'',
        Some (ExecError ''exit status 128'')),
       ([''checkout'', ''feature-branch''],
        ''error: untracked working tree files would be overwritten'',
        Some (ExecError ''exit status 1'')),
       ([''branch'', ''-D'', ''skill-update/3f9a1c2''],
        ''error: cannot delete checked out branch skill-update/3f9a1c2'',
        Some (ExecError ''exit status 1''))],
      rejectingRepo\<lparr>heads := heads rejectingRepo @ [(''skill-update/3f9a1c2'', ''Initial commit'', [])],
                    current := ''skill-update/3f9a1c2'',
                    index := [''prompts/test.md''],
                    worktreeOnly := [''src/main.go'']\<rparr>)"
  by code_simp

lemma observedD:
  "observed x = (r, cs, w) \<Longrightarrow> fst x = r \<and> calls (snd x) = cs \<and> world (snd x) = w"
  by (simp add: observed_def)

lemma newCalls_start: "newCalls (start w) s' = calls s'"
  by (simp add: newCalls_def start_def)

lemma newOutput_start: "newOutput (start w) s' = stdout s'"
  by (simp add: newOutput_def start_def)

lemma custom_run:
  "observed (extractPrompts simGit customInfo (start customRepo)) =
     (Success,
      [([''config'', ''--get'', ''prrompt.branchPrefix''], ''custom-branch'', None),
       ([''config'', ''--get'', ''prrompt.baseBranch''], ''develop'', None),
       ([''checkout'', ''-b'', ''custom-branch/c0ffee1'', ''develop''],
        ''Switched to a new branch custom-branch/c0ffee1'', None),
       ([''cherry-pick'', customSHA, ''--no-commit''], [], None),
       ([''restore'', ''--staged'', ''prompts/old.md''], [], None),
       ([''config'', ''--get'', ''prrompt.commitPrefix''], ''custom-prefix'', None),
       ([''commit'', ''-m'',
         ''[custom-prefix] Add prompt file'' @ NL @ NL @ ''Extracted from feature-branch (c0ffee1)''],
        ''[custom-branch/c0ffee1] [custom-prefix] Add prompt file'' @ NL @ NL
          @ ''Extracted from feature-branch (c0ffee1)'', None),
       ([''push'', ''origin'', ''custom-branch/c0ffee1'', ''-u''],
        ''branch set up to track origin/custom-branch/c0ffee1'', None),
       ([''checkout'', ''-f'', ''feature-branch''], ''Switched to branch feature-branch'', None),
       ([''config'', ''--get'', ''remote.origin.url''], ''git@github.com:Ilnicki010/prrompt.git'', None),
       ([''config'', ''--get'', ''prrompt.baseBranch''], ''develop'', None)],
      customRepo\<lparr>heads := heads customRepo
        @ [(''custom-branch/c0ffee1'',
            ''[custom-prefix] Add prompt file'' @ NL @ NL @ ''Extracted from feature-branch (c0ffee1)'',
            [''README.md'', ''custom/prompts/test.md''])]\<rparr>)"
  by code_simp

lemma conflict_run:
  "observed (processCommit simGit mixedSHA (start conflictRepo)) =
     (Failure (Errorf ''error extracting prompts: ''
                (Errorf ''failed to cherry-pick: '' (ExecError ''exit status 1''))),
      [([''rev-parse'', ''--abbrev-ref'', ''HEAD''], ''feature-branch'', None),
       ([''config'', ''--get'', ''prrompt.branchPrefix''], [], Some (ExecError ''exit status 1'')),
       ([''log'', ''--format=%B'', ''-n'', ''1'', mixedSHA], ''Add prompt and code'', None),
       ([''rev-parse'', ''--abbrev-ref'', ''HEAD''], ''feature-branch'', None),
       ([''diff-tree'', ''--no-commit-id'', ''--name-only'', ''-r'', mixedSHA],
        ''prompts/test.md'' @ NL @ ''src/main.go'', None),
       (patternsQuery, [], Some (ExecError ''exit status 1'')),
       (patternsQuery, [], Some (ExecError ''exit status 1'')),
       ([''config'', ''--get'', ''prrompt.branchPrefix''], [], Some (ExecError ''exit status 1'')),
       ([''config'', ''--get'', ''prrompt.baseBranch''], [], Some (ExecError ''exit status 1'')),
       ([''checkout'', ''-b'', ''skill-update/3f9a1c2'', ''main''],
        ''Switched to a new branch skill-update/3f9a1c2'', None),
       ([''cherry-pick'', mixedSHA, ''--no-commit''],
        ''error: could not apply 3f9a1c27d4e5b6a7980112233445566778899aab'',
        Some (ExecError ''exit status 1'')),
       ([''cherry-pick'', ''--abort''], ''error: no cherry-pick or revert in progress'',
        Some (ExecError ''exit status 128'')),
       ([''checkout'', ''feature-branch''],
        ''error: you need to resolve your current index first'',
        Some (ExecError ''exit status 1'')),
       ([''branch'', ''-D'', ''skill-update/3f9a1c2''],
        ''error: cannot delete checked out branch skill-update/3f9a1c2'',
        Some (ExecError ''exit status 1''))],
      conflictRepo\<lparr>heads := heads conflictRepo @ [(''skill-update/3f9a1c2'', ''Initial commit'', [])],
                   current := ''skill-update/3f9a1c2'',
                   unmerged := True\<rparr>)"
  by code_simp

lemma prompt_only_rejected_run:
  "observed (processCommit simGit promptSHA (start promptOnlyRepo)) =
     (Failure (Errorf ''error extracting prompts: ''
                (Errorf ''failed to commit: '' (ExecError ''exit status 1''))),
      [([''rev-parse'', ''--abbrev-ref'', ''HEAD''], ''feature-branch'', None),
       ([''config'', ''--get'', ''prrompt.branchPrefix''], [], Some (ExecError ''exit status 1'')),
       ([''log'', ''--format=%B'', ''-n'', ''1'', promptSHA], ''Add prompt file'', None),
       ([''rev-parse'', ''--abbrev-ref'', ''HEAD''], ''feature-branch'', None),
       ([''diff-tree'', ''--no-commit-id'', ''--name-only'', ''-r'', promptSHA],
        ''.claude/skills/test.md'', None),
       (patternsQuery, [], Some (ExecError ''exit status 1'')),
       ([''config'', ''--get'', ''prrompt.branchPrefix''], [], Some (ExecError ''exit status 1'')),
       ([''config'', ''--get'', ''prrompt.baseBranch''], [], Some (ExecError ''exit status 1'')),
       ([''checkout'', ''-b'', ''skill-update/a11ce5e'', ''main''],
        ''Switched to a new branch skill-update/a11ce5e'', None),
       ([''cherry-pick'', promptSHA, ''--no-commit''], [], None),
       ([''config'', ''--get'', ''prrompt.commitPrefix''], [], Some (ExecError ''exit status 1'')),
       ([''commit'', ''-m'', ''[prompt] Add prompt file''],
        ''commit rejected by hook'', Some (ExecError ''exit status 1'')),
       ([''cherry-pick'', ''--abort''], ''error: no cherry-pick or revert in progress'',
        Some (ExecError ''exit status 128'')),
       ([''checkout'', ''feature-branch''], ''Switched to branch feature-branch'', None),
       ([''branch'', ''-D'', ''skill-update/a11ce5e''], ''Deleted branch skill-update/a11ce5e'', None)],
      promptOnlyRepo)"
  by code_simp

lemma notes_run:
  "observed (processCommit simGit notesSHA (start notesRepo)) =
     (Success,
      [([''rev-parse'', ''--abbrev-ref'', ''HEAD''], ''feature-branch'', None),
       ([''config'', ''--get'', ''prrompt.branchPrefix''], [], Some (ExecError ''exit status 1'')),
       ([''log'', ''--format=%B'', ''-n'', ''1'', notesSHA], ''Add prompt and notes'', None),
       ([''rev-parse'', ''--abbrev-ref'', ''HEAD''], ''feature-branch'', None),
       ([''diff-tree'', ''--no-commit-id'', ''--name-only'', ''-r'', notesSHA],
        ''a.txt'' @ NL @ '' notes.txt'' @ NL @ ''prompts/test.md'', None),
       (patternsQuery, [], Some (ExecError ''exit status 1'')),
       (patternsQuery, [], Some (ExecError ''exit status 1'')),
       (patternsQuery, [], Some (ExecError ''exit status 1'')),
       ([''config'', ''--get'', ''prrompt.branchPrefix''], [], Some (ExecError ''exit status 1'')),
       ([''config'', ''--get'', ''prrompt.baseBranch''], [], Some (ExecError ''exit status 1'')),
       ([''checkout'', ''-b'', ''skill-update/0badc0d'', ''main''],
        ''Switched to a new branch skill-update/0badc0d'', None),
       ([''cherry-pick'', notesSHA, ''--no-commit''], [], None),
       ([''restore'', ''--staged'', ''a.txt''], ''error: pathspec did not match: a.txt'',
        Some (ExecError ''exit status 1'')),
       ([''restore'', ''--staged'', ''notes.txt''], ''error: pathspec did not match: notes.txt'',
        Some (ExecError ''exit status 1'')),
       ([''config'', ''--get'', ''prrompt.commitPrefix''], [], Some (ExecError ''exit status 1'')),
       ([''commit'', ''-m'',
         ''[prompt] Add prompt and notes'' @ NL @ NL @ ''Extracted from feature-branch (0badc0d)''],
        ''[skill-update/0badc0d] [prompt] Add prompt and notes'' @ NL @ NL
          @ ''Extracted from feature-branch (0badc0d)'', None),
       ([''push'', ''origin'', ''skill-update/0badc0d'', ''-u''],
        ''fatal: origin does not appear to be a git repository'',
        Some (ExecError ''exit status 128'')),
       ([''checkout'', ''-f'', ''feature-branch''], ''Switched to branch feature-branch'', None),
       ([''config'', ''--get'', ''remote.origin.url''], [], Some (ExecError ''exit status 1''))],
      notesRepo\<lparr>heads := heads notesRepo
        @ [(''skill-update/0badc0d'',
            ''[prompt] Add prompt and notes'' @ NL @ NL @ ''Extracted from feature-branch (0badc0d)'',
            ['' a.txt'', '' notes.txt'', ''prompts/test.md''])]\<rparr>)"
  by code_simp

section \<open>The claims\<close>

text \<open>
  C1. After a failed cherry-pick or commit the compensating sequence is meant to leave no
  half-created extraction branch behind. \<open>cleanup\<close> switches back with a plain
  \<open>git checkout\<close>, where the success path of \<open>extractPrompts\<close> uses \<open>git checkout -f\<close>
  "to handle any uncommitted changes". For the mixed commit of the tests, when a hook
  rejects the commit: there is no cherry-pick to abort, the plain switch back is refused
  because the unstaged file \<open>src/main.go\<close> would be overwritten, and the branch cannot be
  deleted while it is checked out. The error of the commit is returned, and the
  extraction branch is still listed and still checked out.
\<close>

theorem extraction_branch_left_behind:
  "fst (processCommit simGit mixedSHA (start rejectingRepo))
     = Failure (Errorf ''error extracting prompts: ''
                 (Errorf ''failed to commit: '' (ExecError ''exit status 1'')))
   \<and> map fst (drop 13 (calls (snd (processCommit simGit mixedSHA (start rejectingRepo)))))
     = [ [''commit'', ''-m'',
           ''[prompt] Add prompt and code'' @ NL @ NL @ ''Extracted from feature-branch (3f9a1c2)''],
        [''cherry-pick'', ''--abort''],
        [''checkout'', ''feature-branch''],
        [''branch'', ''-D'', ''skill-update/3f9a1c2'']]
   \<and> branchListed simGit (world (snd (processCommit simGit mixedSHA (start rejectingRepo))))
         ''skill-update/3f9a1c2''
   \<and> current (world (snd (processCommit simGit mixedSHA (start rejectingRepo))))
         = ''skill-update/3f9a1c2''"
proof -
  note obs = observedD[OF rejecting_run]
  have "branchListed simGit
          (rejectingRepo\<lparr>heads := heads rejectingRepo @ [(''skill-update/3f9a1c2'', ''Initial commit'', [])],
                    current := ''skill-update/3f9a1c2'',
                    index := [''prompts/test.md''],
                    worktreeOnly := [''src/main.go'']\<rparr>) ''skill-update/3f9a1c2''"
    by code_simp
  with obs show ?thesis by simp
qed

text \<open>
  The same happens when the cherry-pick itself stops on a conflict: the index is left
  unresolved, which a plain switch refuses as well.
\<close>

lemma conflicting_pick_leaves_branch:
  "fst (processCommit simGit mixedSHA (start conflictRepo))
     = Failure (Errorf ''error extracting prompts: ''
                 (Errorf ''failed to cherry-pick: '' (ExecError ''exit status 1'')))
   \<and> map fst (drop 10 (calls (snd (processCommit simGit mixedSHA (start conflictRepo)))))
     = [ [''cherry-pick'', mixedSHA, ''--no-commit''],
        [''cherry-pick'', ''--abort''],
        [''checkout'', ''feature-branch''],
        [''branch'', ''-D'', ''skill-update/3f9a1c2'']]
   \<and> branchListed simGit (world (snd (processCommit simGit mixedSHA (start conflictRepo))))
         ''skill-update/3f9a1c2''
   \<and> current (world (snd (processCommit simGit mixedSHA (start conflictRepo))))
         = ''skill-update/3f9a1c2''"
proof -
  note obs = observedD[OF conflict_run]
  have "branchListed simGit
          (conflictRepo\<lparr>heads := heads conflictRepo @ [(''skill-update/3f9a1c2'', ''Initial commit'', [])],
                   current := ''skill-update/3f9a1c2'',
                   unmerged := True\<rparr>) ''skill-update/3f9a1c2''"
    by code_simp
  with obs show ?thesis by simp
qed

text \<open>
  Where nothing stands in the way of the plain switch, the sequence does what it is meant
  to do: after the rejected commit of a prompt-only commit the repository is as it was.
\<close>

lemma cleanup_restores_prompt_only_commit:
  "fst (processCommit simGit promptSHA (start promptOnlyRepo))
     = Failure (Errorf ''error extracting prompts: ''
                 (Errorf ''failed to commit: '' (ExecError ''exit status 1'')))
   \<and> world (snd (processCommit simGit promptSHA (start promptOnlyRepo))) = promptOnlyRepo
   \<and> \<not> branchListed simGit (world (snd (processCommit simGit promptSHA (start promptOnlyRepo))))
         ''skill-update/a11ce5e''"
proof -
  note obs = observedD[OF prompt_only_rejected_run]
  have "\<not> branchListed simGit promptOnlyRepo ''skill-update/a11ce5e''"
    by code_simp
  with obs show ?thesis by simp
qed




text \<open>
  C3. When the current branch can be read and its name starts with the branch prefix
  (configured or default) followed by \<open>/\<close>, \<open>processCommit\<close> returns \<open>nil\<close> for every commit
  identifier after exactly two queries (the current branch and the prefix): it issues no
  command that changes the repository, prints nothing, and the process exits with 0.
\<close>

theorem prompt_branch_is_noop:
  assumes "runGit g [''rev-parse'', ''--abbrev-ref'', ''HEAD''] s = ((branch, None), s1)"
    and "getBranchPrefix g s1 = (branchPrefix, s2)"
    and "HasPrefix branch (branchPrefix @ ''/'')"
  shows "processCommit g sha s = (Success, s2)
       \<and> (\<exists>r. newCalls s s2 = [([''rev-parse'', ''--abbrev-ref'', ''HEAD''], (branch, None)),
                                ([''config'', ''--get'', ''prrompt.branchPrefix''], r)])
       \<and> newOutput s s2 = []
       \<and> main g [prog, sha] s = (0, s2)"
proof -
  from assms have skip: "onPromptBranch g s = (True, s2)"
    by (simp add: onPromptBranch_def)
  then have p: "processCommit g sha s = (Success, s2)"
    by (simp add: processCommit_def)
  from getBranchPrefix_ran[OF assms(2)] obtain r where
    r: "ran s1 s2 [([''config'', ''--get'', ''prrompt.branchPrefix''], r)] []" by blast
  note both = ran_trans[OF runGit_ran[OF assms(1)] r]
  from ran_newCalls[OF both]
  have "\<exists>r. newCalls s s2 = [([''rev-parse'', ''--abbrev-ref'', ''HEAD''], (branch, None)),
                              ([''config'', ''--get'', ''prrompt.branchPrefix''], r)]"
    by simp
  moreover from ran_newOutput[OF both] have "newOutput s s2 = []" by simp
  moreover from p have "main g [prog, sha] s = (0, s2)" by (simp add: main_def)
  ultimately show ?thesis using p by blast
qed

theorem prompt_branch_is_noop_witness:
  "HasPrefix ''skill-update/test123'' (defaultBranchPrefix @ ''/'')
   \<and> fst (processCommit simGit mixedSHA (start promptBranchRepo)) = Success
   \<and> world (snd (processCommit simGit mixedSHA (start promptBranchRepo))) = promptBranchRepo
   \<and> stdout (snd (processCommit simGit mixedSHA (start promptBranchRepo))) = []
   \<and> fst (main simGit [''prrompt'', mixedSHA] (start promptBranchRepo)) = 0"
proof -
  define s1 where "s1 = snd (runGit simGit [''rev-parse'', ''--abbrev-ref'', ''HEAD''] (start promptBranchRepo))"
  define s2 where "s2 = snd (getBranchPrefix simGit s1)"
  have "fst (runGit simGit [''rev-parse'', ''--abbrev-ref'', ''HEAD''] (start promptBranchRepo))
          = (''skill-update/test123'', None)"
    by code_simp
  then have h1: "runGit simGit [''rev-parse'', ''--abbrev-ref'', ''HEAD''] (start promptBranchRepo)
          = ((''skill-update/test123'', None), s1)"
    unfolding s1_def by (simp add: prod_eq_iff)
  have "fst (getBranchPrefix simGit
          (snd (runGit simGit [''rev-parse'', ''--abbrev-ref'', ''HEAD''] (start promptBranchRepo))))
          = defaultBranchPrefix"
    by code_simp
  then have h2: "getBranchPrefix simGit s1 = (defaultBranchPrefix, s2)"
    unfolding s1_def s2_def by (simp add: prod_eq_iff)
  have h3: "HasPrefix ''skill-update/test123'' (defaultBranchPrefix @ ''/'')" by code_simp
  have w: "world (snd (getBranchPrefix simGit
          (snd (runGit simGit [''rev-parse'', ''--abbrev-ref'', ''HEAD''] (start promptBranchRepo)))))
          = promptBranchRepo"
    by code_simp
  have o: "stdout (snd (getBranchPrefix simGit
          (snd (runGit simGit [''rev-parse'', ''--abbrev-ref'', ''HEAD''] (start promptBranchRepo)))))
          = []"
    by code_simp
  from prompt_branch_is_noop[OF h1 h2 h3, of mixedSHA "''prrompt''"] h3 w o
  show ?thesis by (simp add: s1_def s2_def)
qed

text \<open>
  C4. The other files of a mixed commit are to be unstaged only, so that the commit on the
  extraction branch holds the prompt files and none of the other files (the comment in
  \<open>extractPrompts\<close> and \<open>Test_MixedCommit\<close> say so). The code unstages the paths as
  \<open>analyzeCommit\<close> stored them, trimmed, and drops the result of each
  \<open>git restore --staged\<close>. For a commit that touches \<open>prompts/test.md\<close> and two files whose
  names start with a space, the two commands name paths that are not staged and fail, the
  run still succeeds, and the committed tree of the extraction branch holds both other
  files.
\<close>

theorem other_files_committed_when_unstaging_fails:
  "map_of (revisions notesRepo) notesSHA
     = Some (''Add prompt and notes'', ['' a.txt'', '' notes.txt'', ''prompts/test.md''])
   \<and> fst (processCommit simGit notesSHA (start notesRepo)) = Success
   \<and> take 2 (drop 12 (calls (snd (processCommit simGit notesSHA (start notesRepo)))))
     = [([''restore'', ''--staged'', ''a.txt''],
         (''error: pathspec did not match: a.txt'', Some (ExecError ''exit status 1''))),
        ([''restore'', ''--staged'', ''notes.txt''],
         (''error: pathspec did not match: notes.txt'', Some (ExecError ''exit status 1'')))]
   \<and> treeOf (world (snd (processCommit simGit notesSHA (start notesRepo)))) ''skill-update/0badc0d''
     = ['' a.txt'', '' notes.txt'', ''prompts/test.md'']"
proof -
  note obs = observedD[OF notes_run]
  have commit: "map_of (revisions notesRepo) notesSHA
     = Some (''Add prompt and notes'', ['' a.txt'', '' notes.txt'', ''prompts/test.md''])"
    by code_simp
  have tree: "treeOf (notesRepo\<lparr>heads := heads notesRepo
        @ [(''skill-update/0badc0d'',
            ''[prompt] Add prompt and notes'' @ NL @ NL @ ''Extracted from feature-branch (0badc0d)'',
            ['' a.txt'', '' notes.txt'', ''prompts/test.md''])]\<rparr>) ''skill-update/0badc0d''
     = ['' a.txt'', '' notes.txt'', ''prompts/test.md'']"
    by code_simp
  from obs commit tree show ?thesis by simp
qed

text \<open>
  Where the stored paths are the paths of the commit, the unstaging does what it is meant
  to do: in the mixed commit of the tests the other file stays out of the committed tree.
\<close>

lemma unstaged_file_stays_out_of_commit:
  "fst (extractPrompts simGit mixedInfo (start testRepo)) = Success
   \<and> treeOf (world (snd (extractPrompts simGit mixedInfo (start testRepo)))) ''skill-update/3f9a1c2''
     = [''prompts/test.md'']"
proof -
  note obs = observedD[OF mixed_run]
  have "treeOf (testRepo\<lparr>heads := heads testRepo
        @ [(''skill-update/3f9a1c2'',
            ''[prompt] Add prompt and code'' @ NL @ NL @ ''Extracted from feature-branch (3f9a1c2)'',
            [''prompts/test.md''])]\<rparr>) ''skill-update/3f9a1c2'' = [''prompts/test.md'']"
    by code_simp
  with obs show ?thesis by simp
qed

text \<open>
  C5. Whenever an extraction issues its commit command, the message is \<open>[\<close>, the commit
  prefix that the query just before it gave (or the default), \<open>]\<close>, a space and the
  original message; followed, for a mixed commit, by two newlines and
  \<open>Extracted from <source branch> (<first 7 bytes of the SHA>)\<close>, and by nothing otherwise:
  the message is the bare prefixed message if and only if the commit is not mixed.
\<close>

theorem commit_message_format:
  assumes run: "extractPrompts g info s = (r, s')"
    and mem: "(c, x) \<in> set (newCalls s s')"
    and verb: "hd c = ''commit''"
  shows "\<exists>pre rcp post.
           newCalls s s' = pre @ [([''config'', ''--get'', ''prrompt.commitPrefix''], rcp), (c, x)] @ post
         \<and> c = [''commit'', ''-m'',
                 ''['' @ configured defaultCommitPrefix rcp @ ''] '' @ Message info
                 @ (if IsMixed info
                    then NL @ NL @ ''Extracted from '' @ SourceBranch info
                           @ '' ('' @ take 7 (SHA info) @ '')''
                    else [])]
         \<and> (c ! 2 = ''['' @ configured defaultCommitPrefix rcp @ ''] '' @ Message info)
             = (\<not> IsMixed info)"
proof -
  from locate_commit[OF run mem verb] obtain rbp rbase rcreate rpick rs rcp rest where
    l: "newCalls s s' = stagedCalls rbp rbase info rcreate rpick rs rcp x @ rest"
       "c = [''commit'', ''-m'', commitText rcp info]"
    by blast
  from l have "newCalls s s' =
      (startCalls rbp rbase info rcreate @ [([''cherry-pick'', SHA info, ''--no-commit''], rpick)]
        @ unstageCalls info rs)
      @ [([''config'', ''--get'', ''prrompt.commitPrefix''], rcp), (c, x)] @ rest"
    by (simp add: stagedCalls_def)
  moreover from l(2) have "c = [''commit'', ''-m'',
                 ''['' @ configured defaultCommitPrefix rcp @ ''] '' @ Message info
                 @ (if IsMixed info
                    then NL @ NL @ ''Extracted from '' @ SourceBranch info
                           @ '' ('' @ take 7 (SHA info) @ '')''
                    else [])]"
    by (simp add: commitText_def)
  moreover from this have "(c ! 2 = ''['' @ configured defaultCommitPrefix rcp @ ''] '' @ Message info)
             = (\<not> IsMixed info)"
    by simp
  ultimately show ?thesis by blast
qed

theorem commit_message_format_witness:
  "IsMixed mixedInfo
   \<and> ([''commit'', ''-m'',
         ''[prompt] Add prompt and code'' @ NL @ NL @ ''Extracted from feature-branch (3f9a1c2)''],
        (''[skill-update/3f9a1c2] [prompt] Add prompt and code'' @ NL @ NL
          @ ''Extracted from feature-branch (3f9a1c2)'', None))
       \<in> set (newCalls (start testRepo) (snd (extractPrompts simGit mixedInfo (start testRepo))))
   \<and> suffix (NL @ NL @ ''Extracted from feature-branch (3f9a1c2)'')
         (''[prompt] Add prompt and code'' @ NL @ NL @ ''Extracted from feature-branch (3f9a1c2)'')"
proof -
  let ?run = "extractPrompts simGit mixedInfo (start testRepo)"
  note obs = observedD[OF mixed_run]
  define m where "m = ''[prompt] Add prompt and code'' @ NL @ NL @ ''Extracted from feature-branch (3f9a1c2)''"
  define x :: reply where "x = (''[skill-update/3f9a1c2] [prompt] Add prompt and code'' @ NL @ NL
          @ ''Extracted from feature-branch (3f9a1c2)'', None)"
  define note' where "note' = NL @ NL @ ''Extracted from '' @ SourceBranch mixedInfo
                           @ '' ('' @ take 7 (SHA mixedInfo) @ '')''"
  have run: "?run = (fst ?run, snd ?run)" by simp
  have mixed: "IsMixed mixedInfo" by (simp add: mixedInfo_def)
  have mem: "([''commit'', ''-m'', m], x) \<in> set (newCalls (start testRepo) (snd ?run))"
    by (simp add: newCalls_start obs m_def x_def)
  have verb: "hd [''commit'', ''-m'', m] = ''commit''" by simp
  from commit_message_format[OF run mem verb] mixed obtain rcp where
    "[''commit'', ''-m'', m] = [''commit'', ''-m'',
        ''['' @ configured defaultCommitPrefix rcp @ ''] '' @ Message mixedInfo @ note']"
    unfolding note'_def by auto
  then have "m = (''['' @ configured defaultCommitPrefix rcp @ ''] '' @ Message mixedInfo) @ note'"
    by simp
  then have "suffix note' m" by (rule suffixI)
  moreover have "note' = NL @ NL @ ''Extracted from feature-branch (3f9a1c2)''"
    by (simp add: note'_def mixedInfo_def mixedSHA_def)
  ultimately show ?thesis using mixed mem by (simp add: m_def x_def)
qed

text \<open>
  C6. When the guard does not skip and the analysis finds no prompt file, \<open>processCommit\<close>
  returns \<open>nil\<close> having issued queries only (so no branch is created, switched or deleted),
  nothing is printed, and the process exits with 0.
\<close>

theorem no_prompt_files_is_noop:
  assumes "onPromptBranch g s = (False, s1)"
    and "analyzeCommit g sha s1 = (Inr info, s2)"
    and "PromptFiles info = []"
  shows "processCommit g sha s = (Success, s2)
       \<and> (\<forall>c\<in>set (newCalls s s2). isQuery (fst c))
       \<and> newOutput s s2 = []
       \<and> main g [prog, sha] s = (0, s2)"
proof -
  from assms have p: "processCommit g sha s = (Success, s2)"
    by (simp add: processCommit_def)
  from onPromptBranch_ran[OF assms(1)] obtain cs1 where
    cs1: "ran s s1 cs1 []" "\<forall>c\<in>set cs1. isQuery (fst c)" by blast
  from analyzeCommit_ran[OF assms(2)] obtain cs2 where
    cs2: "ran s1 s2 cs2 []" "\<forall>c\<in>set cs2. isQuery (fst c)" by blast
  note both = ran_trans[OF cs1(1) cs2(1)]
  from ran_newCalls[OF both] cs1(2) cs2(2) have "\<forall>c\<in>set (newCalls s s2). isQuery (fst c)" by auto
  moreover from ran_newOutput[OF both] have "newOutput s s2 = []" by simp
  moreover from p have "main g [prog, sha] s = (0, s2)" by (simp add: main_def)
  ultimately show ?thesis using p by blast
qed

theorem no_prompt_files_is_noop_witness:
  "fst (onPromptBranch simGit (start codeRepo)) = False
   \<and> fst (processCommit simGit codeSHA (start codeRepo)) = Success
   \<and> world (snd (processCommit simGit codeSHA (start codeRepo))) = codeRepo
   \<and> stdout (snd (processCommit simGit codeSHA (start codeRepo))) = []
   \<and> fst (main simGit [''prrompt'', codeSHA] (start codeRepo)) = 0"
proof -
  define s1 where "s1 = snd (onPromptBranch simGit (start codeRepo))"
  define info where "info = (case fst (analyzeCommit simGit codeSHA s1) of Inr i \<Rightarrow> i)"
  define s2 where "s2 = snd (analyzeCommit simGit codeSHA s1)"
  have g: "fst (onPromptBranch simGit (start codeRepo)) = False" by code_simp
  then have h1: "onPromptBranch simGit (start codeRepo) = (False, s1)"
    unfolding s1_def by (simp add: prod_eq_iff)
  have "fst (analyzeCommit simGit codeSHA (snd (onPromptBranch simGit (start codeRepo))))
          = Inr \<lparr>SHA = codeSHA, Message = ''Add code file'', PromptFiles = [],
                  OtherFiles = [''src/main.go''], IsMixed = True, SourceBranch = ''feature-branch''\<rparr>"
    by code_simp
  then have h2: "analyzeCommit simGit codeSHA s1 = (Inr info, s2)" and h3: "PromptFiles info = []"
    unfolding s1_def s2_def info_def by (simp_all add: prod_eq_iff)
  have w: "world (snd (analyzeCommit simGit codeSHA (snd (onPromptBranch simGit (start codeRepo)))))
             = codeRepo"
    by code_simp
  have o: "stdout (snd (analyzeCommit simGit codeSHA (snd (onPromptBranch simGit (start codeRepo)))))
             = []"
    by code_simp
  from no_prompt_files_is_noop[OF h1 h2 h3, of "''prrompt''"] g w o
  show ?thesis by (simp add: s1_def s2_def)
qed



text \<open>
  C8. When the push of an extraction fails, the warning with the error is printed, the
  next command is the forced switch back to the source branch, and only queries follow
  (the remote URL and the base branch, for the comparison URL). No \<open>git branch\<close> command is
  issued in the whole run, so the branch that was created (the one pushed) is not deleted.
  If the switch back succeeds the extraction returns \<open>nil\<close> and prints the line with
  the URL; if it fails, that failure is returned.
\<close>

theorem push_failure_is_not_fatal:
  assumes run: "extractPrompts g info s = (r, s')"
    and failed: "(c, (out, Some e)) \<in> set (newCalls s s')"
    and verb: "hd c = ''push''"
  shows "\<exists>pre promptBranch baseBranch rcreate rback post.
           newCalls s s' = pre @ [(c, (out, Some e)),
                                  ([''checkout'', ''-f'', SourceBranch info], rback)] @ post
         \<and> c = [''push'', ''origin'', promptBranch, ''-u'']
         \<and> ([''checkout'', ''-b'', promptBranch, baseBranch], rcreate) \<in> set pre
         \<and> snd rcreate = None
         \<and> (\<forall>d\<in>set (newCalls s s'). hd (fst d) \<noteq> ''branch'')
         \<and> (\<forall>d\<in>set post. isQuery (fst d))
         \<and> ''Warning: failed to push (you may need to push manually): '' @ Error e @ NL
               \<in> set (newOutput s s')
         \<and> (case snd rback of
               None \<Rightarrow> r = Success
                        \<and> (\<exists>url. NL @ ''Create PR: '' @ url @ NL @ NL \<in> set (newOutput s s'))
             | Some e' \<Rightarrow> r = Failure (Errorf ''failed to return to original branch: '' e'))"
proof -
  from locate_push[OF run failed verb]
  obtain rbp rbase rcreate rpick rs rcp rcommit rback cs lines where
    l: "snd rcreate = None"
       "newCalls s s' = stagedCalls rbp rbase info rcreate rpick rs rcp rcommit
                             @ publishCalls rbp info (out, Some e) rback @ cs"
       "c = [''push'', ''origin'', promptBranchOf rbp info, ''-u'']"
       "\<forall>d\<in>set cs. isQuery (fst d)"
       "newOutput s s' = header rbp info @ publishLines rbp info (out, Some e) @ lines"
       "case snd rback of
               None \<Rightarrow> r = Success \<and> (\<exists>url. lines = [NL @ CHECK @ '' Skill extraction complete!'' @ NL,
                                                          NL @ ''Create PR: '' @ url @ NL @ NL])
             | Some e \<Rightarrow> r = Failure (Errorf ''failed to return to original branch: '' e)"
    by blast
  let ?pre = "stagedCalls rbp rbase info rcreate rpick rs rcp rcommit"
  from l(2,3) have 1: "newCalls s s' = ?pre @ [(c, (out, Some e)),
                                  ([''checkout'', ''-f'', SourceBranch info], rback)] @ cs"
    by (simp add: publishCalls_def)
  have 2: "([''checkout'', ''-b'', promptBranchOf rbp info, configured defaultBaseBranch rbase], rcreate)
             \<in> set ?pre"
    by (rule create_in_stagedCalls)
  have 3: "\<forall>d\<in>set (newCalls s s'). hd (fst d) \<noteq> ''branch''"
  proof
    fix d assume "d \<in> set (newCalls s s')"
    with l(2) have "(fst d, snd d) \<in> set ?pre
        \<or> (fst d, snd d) \<in> set (publishCalls rbp info (out, Some e) rback)
        \<or> (fst d, snd d) \<in> set cs" by auto
    with staged_verbs publish_verbs query_verbs[OF _ l(4)] show "hd (fst d) \<noteq> ''branch''"
      by blast
  qed
  from l(5) have 4: "''Warning: failed to push (you may need to push manually): '' @ Error e @ NL
               \<in> set (newOutput s s')"
    by (simp add: publishLines_def pushLine_def)
  from l(5,6) have 5: "case snd rback of
               None \<Rightarrow> r = Success
                        \<and> (\<exists>url. NL @ ''Create PR: '' @ url @ NL @ NL \<in> set (newOutput s s'))
             | Some e' \<Rightarrow> r = Failure (Errorf ''failed to return to original branch: '' e')"
    by (auto split: option.splits)
  from 1 l(3) 2 l(1) 3 l(4) 4 5 show ?thesis by blast
qed

theorem push_failure_is_not_fatal_witness:
  "([''push'', ''origin'', ''skill-update/3f9a1c2'', ''-u''],
      (''fatal: origin does not appear to be a git repository'', Some (ExecError ''exit status 128'')))
     \<in> set (newCalls (start testRepo) (snd (extractPrompts simGit mixedInfo (start testRepo))))
   \<and> ''Warning: failed to push (you may need to push manually): exit status 128'' @ NL
       \<in> set (stdout (snd (extractPrompts simGit mixedInfo (start testRepo))))
   \<and> fst (extractPrompts simGit mixedInfo (start testRepo)) = Success
   \<and> branchListed simGit (world (snd (extractPrompts simGit mixedInfo (start testRepo))))
         ''skill-update/3f9a1c2''
   \<and> current (world (snd (extractPrompts simGit mixedInfo (start testRepo)))) = ''feature-branch''"
proof -
  let ?run = "extractPrompts simGit mixedInfo (start testRepo)"
  note obs = observedD[OF mixed_run]
  have run: "?run = (fst ?run, snd ?run)" by simp
  have failed: "([''push'', ''origin'', ''skill-update/3f9a1c2'', ''-u''],
      (''fatal: origin does not appear to be a git repository'', Some (ExecError ''exit status 128'')))
     \<in> set (newCalls (start testRepo) (snd ?run))"
    by (simp add: newCalls_start obs)
  have verb: "hd [''push'', ''origin'', ''skill-update/3f9a1c2'', ''-u''] = ''push''" by simp
  from push_failure_is_not_fatal[OF run failed verb]
  have "''Warning: failed to push (you may need to push manually): '' @ Error (ExecError ''exit status 128'') @ NL
               \<in> set (newOutput (start testRepo) (snd ?run))"
    by blast
  then have warned: "''Warning: failed to push (you may need to push manually): exit status 128'' @ NL
       \<in> set (stdout (snd ?run))"
    by (simp add: newOutput_start)
  have listed: "branchListed simGit (world (snd ?run)) ''skill-update/3f9a1c2''"
    and returned: "current (world (snd ?run)) = ''feature-branch''"
    unfolding obs by code_simp+
  from failed warned listed returned obs show ?thesis by simp
qed

text \<open>
  C9. Each of the three simple getters returns the default (\<open>prompt\<close>, \<open>skill-update\<close>,
  \<open>main\<close>) when its query fails (the key is absent) or the trimmed value is empty, and the
  configured value otherwise. \<open>getPromptPatterns\<close> splits the value at commas, trims each
  piece and drops the empty ones; it returns the two default patterns when the key is
  absent, the value empty, or no piece is left. \<open>isPromptFile\<close> decides by prefix against the
  patterns so read. In an extraction, the branch created is named by the branch prefix
  that the first query gave, a slash and the first 7 bytes of the SHA, and is created
  from the base branch that the second query gave; the commit message starts with the
  commit prefix, in brackets, that the query just before the commit gave.
\<close>

theorem configuration_overrides_defaults:
  assumes run: "extractPrompts g info s = (r, s')"
    and created: "(c1, x1) \<in> set (newCalls s s')" "length c1 = 4" "take 2 c1 = [''checkout'', ''-b'']"
    and committed: "(c2, x2) \<in> set (newCalls s s')" "hd c2 = ''commit''"
  shows "configured dflt (val, err) = (if err \<noteq> None \<or> val = [] then dflt else val)
       \<and> getCommitPrefix g t =
           (configured ''prompt'' (fst (runGit g [''config'', ''--get'', ''prrompt.commitPrefix''] t)),
            snd (runGit g [''config'', ''--get'', ''prrompt.commitPrefix''] t))
       \<and> getBranchPrefix g t =
           (configured ''skill-update'' (fst (runGit g [''config'', ''--get'', ''prrompt.branchPrefix''] t)),
            snd (runGit g [''config'', ''--get'', ''prrompt.branchPrefix''] t))
       \<and> getBaseBranch g t =
           (configured ''main'' (fst (runGit g [''config'', ''--get'', ''prrompt.baseBranch''] t)),
            snd (runGit g [''config'', ''--get'', ''prrompt.baseBranch''] t))
       \<and> getPromptPatterns g t =
           (patternsOf (fst (runGit g patternsQuery t)), snd (runGit g patternsQuery t))
       \<and> patternsOf (val, err) =
           (if err \<noteq> None \<or> val = []
               \<or> filter (\<lambda>p. p \<noteq> []) (map TrimSpace (Split val '','')) = []
            then [''.claude/skills/'', ''prompts/'']
            else filter (\<lambda>p. p \<noteq> []) (map TrimSpace (Split val '','')))
       \<and> isPromptFile g path t =
           (list_ex (\<lambda>pattern. prefix pattern path) (patternsOf (fst (runGit g patternsQuery t))),
            snd (runGit g patternsQuery t))
       \<and> (\<exists>rbp rbase rest.
             newCalls s s' = [([''config'', ''--get'', ''prrompt.branchPrefix''], rbp),
                              ([''config'', ''--get'', ''prrompt.baseBranch''], rbase),
                              (c1, x1)] @ rest
           \<and> c1 = [''checkout'', ''-b'',
                    configured ''skill-update'' rbp @ ''/'' @ take 7 (SHA info),
                    configured ''main'' rbase])
       \<and> (\<exists>pre rcp post.
             newCalls s s' = pre @ [([''config'', ''--get'', ''prrompt.commitPrefix''], rcp), (c2, x2)] @ post
           \<and> prefix (''['' @ configured ''prompt'' rcp @ ''] '' @ Message info) (c2 ! 2))"
proof (intro conjI)
  show "configured dflt (val, err) = (if err \<noteq> None \<or> val = [] then dflt else val)"
    by (simp add: configured_def)
  show "getCommitPrefix g t =
           (configured ''prompt'' (fst (runGit g [''config'', ''--get'', ''prrompt.commitPrefix''] t)),
            snd (runGit g [''config'', ''--get'', ''prrompt.commitPrefix''] t))"
    by (simp add: getCommitPrefix_def configured_def defaultCommitPrefix_def split: prod.splits)
  show "getBranchPrefix g t =
           (configured ''skill-update'' (fst (runGit g [''config'', ''--get'', ''prrompt.branchPrefix''] t)),
            snd (runGit g [''config'', ''--get'', ''prrompt.branchPrefix''] t))"
    by (simp add: getBranchPrefix_def configured_def defaultBranchPrefix_def split: prod.splits)
  show "getBaseBranch g t =
           (configured ''main'' (fst (runGit g [''config'', ''--get'', ''prrompt.baseBranch''] t)),
            snd (runGit g [''config'', ''--get'', ''prrompt.baseBranch''] t))"
    by (simp add: getBaseBranch_def configured_def defaultBaseBranch_def split: prod.splits)
  show pats: "getPromptPatterns g t =
           (patternsOf (fst (runGit g patternsQuery t)), snd (runGit g patternsQuery t))"
    by (simp add: getPromptPatterns_def split: prod.splits)
  show "patternsOf (val, err) =
           (if err \<noteq> None \<or> val = []
               \<or> filter (\<lambda>p. p \<noteq> []) (map TrimSpace (Split val '','')) = []
            then [''.claude/skills/'', ''prompts/'']
            else filter (\<lambda>p. p \<noteq> []) (map TrimSpace (Split val '','')))"
    by (simp add: patternsOf_def trimmedPatterns_filter defaultPromptPatterns_def Let_def)
  show "isPromptFile g path t =
           (list_ex (\<lambda>pattern. prefix pattern path) (patternsOf (fst (runGit g patternsQuery t))),
            snd (runGit g patternsQuery t))"
    by (simp add: isPromptFile_def pats matchesPattern_iff)
  from locate_create[OF run created] obtain rbp rbase rest where
    "newCalls s s' = startCalls rbp rbase info x1 @ rest"
    "c1 = [''checkout'', ''-b'', promptBranchOf rbp info, configured defaultBaseBranch rbase]"
    by blast
  then have "newCalls s s' = [([''config'', ''--get'', ''prrompt.branchPrefix''], rbp),
                              ([''config'', ''--get'', ''prrompt.baseBranch''], rbase),
                              (c1, x1)] @ rest
           \<and> c1 = [''checkout'', ''-b'',
                    configured ''skill-update'' rbp @ ''/'' @ take 7 (SHA info),
                    configured ''main'' rbase]"
    by (simp add: startCalls_def promptBranchOf_def defaultBranchPrefix_def defaultBaseBranch_def)
  then show "\<exists>rbp rbase rest.
             newCalls s s' = [([''config'', ''--get'', ''prrompt.branchPrefix''], rbp),
                              ([''config'', ''--get'', ''prrompt.baseBranch''], rbase),
                              (c1, x1)] @ rest
           \<and> c1 = [''checkout'', ''-b'',
                    configured ''skill-update'' rbp @ ''/'' @ take 7 (SHA info),
                    configured ''main'' rbase]"
    by blast
  from locate_commit[OF run committed] obtain rbp rbase rcreate rpick rs rcp rest where
    l: "newCalls s s' = stagedCalls rbp rbase info rcreate rpick rs rcp x2 @ rest"
       "c2 = [''commit'', ''-m'', commitText rcp info]"
    by blast
  from l have "newCalls s s' =
      (startCalls rbp rbase info rcreate @ [([''cherry-pick'', SHA info, ''--no-commit''], rpick)]
        @ unstageCalls info rs)
      @ [([''config'', ''--get'', ''prrompt.commitPrefix''], rcp), (c2, x2)] @ rest"
    by (simp add: stagedCalls_def)
  moreover from l(2)
  have "prefix (''['' @ configured ''prompt'' rcp @ ''] '' @ Message info) (c2 ! 2)"
    by (simp add: commitText_def defaultCommitPrefix_def)
  ultimately show "\<exists>pre rcp post.
             newCalls s s' = pre @ [([''config'', ''--get'', ''prrompt.commitPrefix''], rcp), (c2, x2)] @ post
           \<and> prefix (''['' @ configured ''prompt'' rcp @ ''] '' @ Message info) (c2 ! 2)"
    by blast
qed

theorem configuration_overrides_defaults_witness:
  "([''checkout'', ''-b'', ''custom-branch/c0ffee1'', ''develop''],
      (''Switched to a new branch custom-branch/c0ffee1'', None))
     \<in> set (newCalls (start customRepo) (snd (extractPrompts simGit customInfo (start customRepo))))
   \<and> ([''commit'', ''-m'',
         ''[custom-prefix] Add prompt file'' @ NL @ NL @ ''Extracted from feature-branch (c0ffee1)''],
       (''[custom-branch/c0ffee1] [custom-prefix] Add prompt file'' @ NL @ NL
          @ ''Extracted from feature-branch (c0ffee1)'', None))
     \<in> set (newCalls (start customRepo) (snd (extractPrompts simGit customInfo (start customRepo))))
   \<and> fst (getCommitPrefix simGit (start customRepo)) = ''custom-prefix''
   \<and> fst (getBranchPrefix simGit (start customRepo)) = ''custom-branch''
   \<and> fst (getBaseBranch simGit (start customRepo)) = ''develop''
   \<and> fst (getPromptPatterns simGit (start customRepo)) = [''custom/prompts/'', ''docs/prompts/'']
   \<and> fst (isPromptFile simGit ''custom/prompts/test.md'' (start customRepo))
   \<and> \<not> fst (isPromptFile simGit ''prompts/old.md'' (start customRepo))
   \<and> fst (getCommitPrefix simGit (start testRepo)) = ''prompt''
   \<and> fst (getPromptPatterns simGit (start testRepo)) = [''.claude/skills/'', ''prompts/'']"
proof -
  let ?run = "extractPrompts simGit customInfo (start customRepo)"
  let ?s = "start customRepo"
  note obs = observedD[OF custom_run]
  define c1 where "c1 = [''checkout'', ''-b'', ''custom-branch/c0ffee1'', ''develop'']"
  define x1 :: reply where "x1 = (''Switched to a new branch custom-branch/c0ffee1'', None)"
  define c2 where "c2 = [''commit'', ''-m'',
         ''[custom-prefix] Add prompt file'' @ NL @ NL @ ''Extracted from feature-branch (c0ffee1)'']"
  define x2 :: reply where "x2 = (''[custom-branch/c0ffee1] [custom-prefix] Add prompt file'' @ NL @ NL
          @ ''Extracted from feature-branch (c0ffee1)'', None)"
  have run: "?run = (fst ?run, snd ?run)" by simp
  have created: "(c1, x1) \<in> set (newCalls ?s (snd ?run))" "length c1 = 4"
      "take 2 c1 = [''checkout'', ''-b'']"
    by (simp_all add: newCalls_start obs c1_def x1_def)
  have committed: "(c2, x2) \<in> set (newCalls ?s (snd ?run))" "hd c2 = ''commit''"
    by (simp_all add: newCalls_start obs c2_def x2_def)
  note inst = configuration_overrides_defaults[OF run created committed]
  have q: "fst (runGit simGit [''config'', ''--get'', ''prrompt.commitPrefix''] ?s) = (''custom-prefix'', None)"
      "fst (runGit simGit [''config'', ''--get'', ''prrompt.branchPrefix''] ?s) = (''custom-branch'', None)"
      "fst (runGit simGit [''config'', ''--get'', ''prrompt.baseBranch''] ?s) = (''develop'', None)"
      "patternsOf (fst (runGit simGit patternsQuery ?s)) = [''custom/prompts/'', ''docs/prompts/'']"
      "fst (runGit simGit [''config'', ''--get'', ''prrompt.commitPrefix''] (start testRepo))
         = ([], Some (ExecError ''exit status 1''))"
      "patternsOf (fst (runGit simGit patternsQuery (start testRepo))) = [''.claude/skills/'', ''prompts/'']"
    by code_simp+
  from inst[of _ _ _ ?s] q
  have custom: "fst (getCommitPrefix simGit ?s) = ''custom-prefix''"
      "fst (getBranchPrefix simGit ?s) = ''custom-branch''"
      "fst (getBaseBranch simGit ?s) = ''develop''"
      "fst (getPromptPatterns simGit ?s) = [''custom/prompts/'', ''docs/prompts/'']"
    by (simp_all add: configured_def)
  from inst[of _ _ _ ?s "''custom/prompts/test.md''"] q
  have yes: "fst (isPromptFile simGit ''custom/prompts/test.md'' ?s)" by simp
  from inst[of _ _ _ ?s "''prompts/old.md''"] q
  have no: "\<not> fst (isPromptFile simGit ''prompts/old.md'' ?s)" by simp
  from inst[of _ _ _ "start testRepo"] q
  have dflt: "fst (getCommitPrefix simGit (start testRepo)) = ''prompt''"
      "fst (getPromptPatterns simGit (start testRepo)) = [''.claude/skills/'', ''prompts/'']"
    by (simp_all add: configured_def)
  from created(1) committed(1) custom yes no dflt show ?thesis
    by (simp add: c1_def x1_def c2_def x2_def)
qed

text \<open>
  C10. \<open>extractPrompts\<close> takes the short SHA with the unguarded slice \<open>info.SHA[:7]\<close>.
  It panics exactly when the commit identifier has fewer than 7 bytes, and then before
  anything else: no git command has been issued by the extraction and nothing has been
  printed. For a short identifier that the analysis accepts (such as \<open>HEAD\<close>) with prompt
  files, \<open>processCommit\<close> ends in that panic after issuing queries only, and the process
  exits with the status of a Go panic.
\<close>

theorem short_sha_panics:
  "(length (SHA info) < 7 \<longrightarrow>
      extractPrompts g info s = (Panicked (SliceBounds 7 (length (SHA info))), s))
   \<and> (7 \<le> length (SHA info) \<longrightarrow> (\<forall>p. fst (extractPrompts g info s) \<noteq> Panicked p))
   \<and> (length sha < 7 \<and> onPromptBranch g s0 = (False, s1)
        \<and> analyzeCommit g sha s1 = (Inr info', s2) \<and> PromptFiles info' \<noteq> [] \<longrightarrow>
      processCommit g sha s0 = (Panicked (SliceBounds 7 (length sha)), s2)
      \<and> (\<forall>c\<in>set (newCalls s0 s2). isQuery (fst c))
      \<and> fst (main g [prog, sha] s0) = 2)"
proof (intro conjI impI)
  assume "length (SHA info) < 7"
  then show "extractPrompts g info s = (Panicked (SliceBounds 7 (length (SHA info))), s)"
    by (simp add: extractPrompts_def)
next
  assume len: "7 \<le> length (SHA info)"
  obtain r s' where run: "extractPrompts g info s = (r, s')" by fastforce
  from run len have "\<forall>p. r \<noteq> Panicked p"
    by (cases rule: extractPrompts_cases) simp_all
  with run show "\<forall>p. fst (extractPrompts g info s) \<noteq> Panicked p" by simp
next
  assume a: "length sha < 7 \<and> onPromptBranch g s0 = (False, s1)
        \<and> analyzeCommit g sha s1 = (Inr info', s2) \<and> PromptFiles info' \<noteq> []"
  then have sha: "SHA info' = sha" using analyzeCommit_info by blast
  with a have x: "extractPrompts g info' s2 = (Panicked (SliceBounds 7 (length sha)), s2)"
    by (simp add: extractPrompts_def)
  with a show p: "processCommit g sha s0 = (Panicked (SliceBounds 7 (length sha)), s2)"
    by (simp add: processCommit_def)
  from a onPromptBranch_ran obtain cs1 where cs1: "ran s0 s1 cs1 []" "\<forall>c\<in>set cs1. isQuery (fst c)"
    by blast
  from a analyzeCommit_ran obtain cs2 where cs2: "ran s1 s2 cs2 []" "\<forall>c\<in>set cs2. isQuery (fst c)"
    by blast
  from ran_newCalls[OF ran_trans[OF cs1(1) cs2(1)]] cs1(2) cs2(2)
  show "\<forall>c\<in>set (newCalls s0 s2). isQuery (fst c)" by auto
  from p show "fst (main g [prog, sha] s0) = 2" by (simp add: main_def)
qed

theorem short_sha_panics_witness:
  "length ''HEAD'' < 7
   \<and> fst (onPromptBranch simGit (start testRepo)) = False
   \<and> fst (processCommit simGit ''HEAD'' (start testRepo)) = Panicked (SliceBounds 7 4)
   \<and> fst (main simGit [''prrompt'', ''HEAD''] (start testRepo)) = 2"
proof -
  define s1 where "s1 = snd (onPromptBranch simGit (start testRepo))"
  define info where "info = (case fst (analyzeCommit simGit ''HEAD'' s1) of Inr i \<Rightarrow> i)"
  define s2 where "s2 = snd (analyzeCommit simGit ''HEAD'' s1)"
  have g: "fst (onPromptBranch simGit (start testRepo)) = False" by code_simp
  then have h1: "onPromptBranch simGit (start testRepo) = (False, s1)"
    unfolding s1_def by (simp add: prod_eq_iff)
  have "fst (analyzeCommit simGit ''HEAD'' (snd (onPromptBranch simGit (start testRepo))))
          = Inr \<lparr>SHA = ''HEAD'', Message = ''Add prompt and code'', PromptFiles = [''prompts/test.md''],
                  OtherFiles = [''src/main.go''], IsMixed = True, SourceBranch = ''feature-branch''\<rparr>"
    by code_simp
  then have h2: "analyzeCommit simGit ''HEAD'' s1 = (Inr info, s2)" and h3: "PromptFiles info \<noteq> []"
    unfolding s1_def s2_def info_def by (simp_all add: prod_eq_iff)
  have h0: "length ''HEAD'' < 7" by simp
  from short_sha_panics[of info simGit s2 "''HEAD''" "start testRepo" s1 info s2 "''prrompt''"] h0 h1 h2 h3 g
  show ?thesis by simp
qed

end
